theory Spec2Isabelle
  imports Main
begin

section \<open>JavaScript values used by the commands\<close>

text \<open>
  Command-line options are strings (or absent), flags are booleans and the two numeric
  options are integers. JavaScript's truthiness of an optional string: absent
  (\<open>undefined\<close>) and the empty string are falsy, every other string is truthy.
\<close>

definition truthy :: "string option \<Rightarrow> bool" where
  "truthy s = (case s of None \<Rightarrow> False | Some x \<Rightarrow> x \<noteq> [])"

text \<open>\<open>a || b\<close> on optional strings.\<close>

definition js_or :: "string option \<Rightarrow> string option \<Rightarrow> string option" where
  "js_or a b = (if truthy a then a else b)"

text \<open>\<open>s.indexOf('.') >= 0\<close>, for a truthy \<open>s\<close>.\<close>

definition has_dot :: "string option \<Rightarrow> bool" where
  "has_dot s = (case s of None \<Rightarrow> False | Some x \<Rightarrow> CHR ''.'' \<in> set x)"

subsection \<open>parseInt(s, 10)\<close>

text \<open>
  \<open>parseInt(s, 10)\<close> skips leading white space, reads an optional sign and then the
  longest run of decimal digits; with no digit the result is \<open>NaN\<close>, here \<open>None\<close>.
  Only the ASCII white space characters are modelled. The result is an unbounded
  integer: JavaScript rounds values beyond \<open>2^53\<close> to the nearest double, which never
  turns a non-zero value into zero or \<open>NaN\<close>.
\<close>

definition is_space :: "char \<Rightarrow> bool" where
  "is_space c = (c \<in> set [CHR 0x20, CHR 0x09, CHR 0x0A, CHR 0x0B, CHR 0x0C, CHR 0x0D])"

definition is_digit :: "char \<Rightarrow> bool" where
  "is_digit c = (c \<in> set ''0123456789'')"

definition digit_val :: "char \<Rightarrow> int" where
  "digit_val c = int (of_char c) - 48"

definition digits_val :: "string \<Rightarrow> int" where
  "digits_val ds = foldl (\<lambda>a c. 10 * a + digit_val c) 0 ds"

definition parse_digits :: "int \<Rightarrow> string \<Rightarrow> int option" where
  "parse_digits sign u =
     (let ds = takeWhile is_digit u
      in if ds = [] then None else Some (sign * digits_val ds))"

definition parseInt10 :: "string \<Rightarrow> int option" where
  "parseInt10 s =
     (case dropWhile is_space s of
        [] \<Rightarrow> None
      | c # r \<Rightarrow>
          if c = CHR ''-'' then parse_digits (- 1) r
          else if c = CHR ''+'' then parse_digits 1 r
          else parse_digits 1 (c # r))"

text \<open>
  \<open>x && parseInt(x, 10)\<close> as the operand of \<open>||\<close>: the operand is falsy when the
  string is absent or empty, when the parse gives \<open>NaN\<close> and when it gives \<open>0\<close>; in
  each of these cases \<open>||\<close> moves on to its right operand. \<open>None\<close> stands for every
  falsy value.
\<close>

definition truthy_parse :: "string option \<Rightarrow> int option" where
  "truthy_parse s =
     (case s of
        None \<Rightarrow> None
      | Some x \<Rightarrow>
          if x = [] then None
          else (case parseInt10 x of
                  None \<Rightarrow> None
                | Some n \<Rightarrow> if n = 0 then None else Some n))"

section \<open>The create command: options and defaults\<close>

text \<open>The options object of \<open>create\<close> (src/command/create.js), one field per option read.\<close>

record options =
  opt_region :: "string option"
  opt_handler :: "string option"
  opt_api_module :: "string option"
  opt_deploy_proxy_api :: bool
  opt_name :: "string option"
  opt_description :: "string option"
  opt_version :: "string option"
  opt_source :: "string option"
  opt_config :: "string option"
  opt_policies :: "string option"
  opt_memory :: "int option"
  opt_timeout :: "int option"
  opt_allow_recursion :: bool
  opt_role :: "string option"
  opt_s3_key :: "string option"
  opt_use_s3_bucket :: "string option"
  opt_s3_see :: "string option"
  opt_keep :: bool
  opt_aws_delay :: "string option"
  opt_aws_retries :: "string option"
  opt_runtime :: "string option"
  opt_Layers :: "string option"
  opt_env_kms_key_arn :: "string option"
  opt_cache_api_config :: "string option"

text \<open>
  create.js lines 48-51. \<open>env_AWS_DELAY\<close> is \<open>process.env.AWS_DELAY\<close>.
  \<^verbatim>\<open>
  const awsDelay = options && options['aws-delay'] && parseInt(options['aws-delay'], 10)
      || (process.env.AWS_DELAY && parseInt(process.env.AWS_DELAY, 10))
      || 5000
  const awsRetries = options && options['aws-retries'] && parseInt(options['aws-retries'], 10) || 5
  \<close>
\<close>

definition awsDelay :: "options \<Rightarrow> string option \<Rightarrow> int" where
  "awsDelay options env_AWS_DELAY =
     (case truthy_parse (opt_aws_delay options) of
        Some n \<Rightarrow> n
      | None \<Rightarrow>
          (case truthy_parse env_AWS_DELAY of
             Some n \<Rightarrow> n
           | None \<Rightarrow> 5000))"

definition awsRetries :: "options \<Rightarrow> int" where
  "awsRetries options =
     (case truthy_parse (opt_aws_retries options) of
        Some n \<Rightarrow> n
      | None \<Rightarrow> 5)"

text \<open>
  A setting that is absent, the string \<open>0\<close>, or not parseable as a number.
\<close>

definition unusable :: "string option \<Rightarrow> bool" where
  "unusable s =
     (case s of None \<Rightarrow> True | Some x \<Rightarrow> x = ''0'' \<or> parseInt10 x = None)"

definition example_options :: options where
  "example_options =
     \<lparr> opt_region = Some ''us-east-1'', opt_handler = Some ''main.handler'',
       opt_api_module = None, opt_deploy_proxy_api = False, opt_name = None,
       opt_description = None, opt_version = Some ''dev'', opt_source = None,
       opt_config = None, opt_policies = None, opt_memory = None, opt_timeout = None,
       opt_allow_recursion = False, opt_role = None, opt_s3_key = None,
       opt_use_s3_bucket = Some ''uploads'', opt_s3_see = None, opt_keep = False,
       opt_aws_delay = None, opt_aws_retries = None, opt_runtime = None,
       opt_Layers = None, opt_env_kms_key_arn = None, opt_cache_api_config = None \<rparr>"

section \<open>Errors, requests and events\<close>

text \<open>
  The literal rejection messages of the two commands, one constructor per message (the
  source's texts are not ASCII). Every one of them is a non-empty string, so each is
  truthy.
\<close>

datatype message =
    RegionUndefined | HandlerUndefined | HandlerWithApiModule | ProxyApiNeedsHandler
  | HandlerWithoutFunction | ApiModuleHasDot | CannotWriteConfig | ConfigExists
  | SlnJsonExists | NoPackageJson | NoPolicyFiles | MemoryTooLow | MemoryTooHigh
  | MemoryNotMultiple | TimeoutTooLow | TimeoutTooHigh | RecursionWithRoleArn
  | S3KeyWithoutBucket | NameMissing | CannotLoadApiConfig | NoApiConfig | NoBucket

text \<open>
  A rejection: one of the messages above, a provider error carrying its classification
  code, a \<open>TypeError\<close> thrown by reading a property of \<open>undefined\<close>, any other
  failure of a collaborator, or (retry engine) the last error tagged as retry-exhausted.
\<close>

datatype error =
    Message message
  | AwsError string
  | TypeError
  | Failure string
  | RetryExhausted error

fun error_code :: "error \<Rightarrow> string option" where
  "error_code (AwsError c) = Some c"
| "error_code _ = None"

text \<open>Rendering of a possibly undefined string inside a template or a concatenation.\<close>

definition render :: "string option \<Rightarrow> string" where
  "render s = (case s of None \<Rightarrow> ''undefined'' | Some x \<Rightarrow> x)"

type_synonym path = string
type_synonym envvars = "(string \<times> string) list"

record filter_rule =
  fr_Name :: string
  fr_Value :: string

text \<open>
  One entry of a bucket's LambdaFunctionConfigurations. \<open>ec_Filter = Some rules\<close> is
  the structure \<open>{Key: {FilterRules: rules}}\<close>, \<open>None\<close> is no Filter property.
\<close>

record event_config =
  ec_Id :: "string option"
  ec_LambdaFunctionArn :: "string option"
  ec_Events :: "string list"
  ec_Filter :: "filter_rule list option"

record notification_config =
  LambdaFunctionConfigurations :: "event_config list option"
  TopicConfigurations :: "string list option"
  QueueConfigurations :: "string list option"

record function_code =
  fc_ZipFile :: "string option"
  fc_S3Bucket :: "string option"
  fc_S3Key :: "string option"

record create_function_params =
  cf_Code :: function_code
  cf_FunctionName :: "string option"
  cf_Description :: "string option"
  cf_MemorySize :: "int option"
  cf_Timeout :: "int option"
  cf_Environment :: "envvars option"
  cf_KMSKeyArn :: "string option"
  cf_Handler :: string
  cf_Role :: string
  cf_Runtime :: string
  cf_Publish :: bool
  cf_Layers :: "string list option"

text \<open>The FunctionConfiguration structure the provider answers with.\<close>

record function_configuration =
  FunctionName :: string
  FunctionArn :: string
  Version :: string

record add_permission_params =
  ap_Action :: string
  ap_FunctionName :: string
  ap_Principal :: string
  ap_SourceArn :: string
  ap_Qualifier :: "string option"
  ap_StatementId :: string

datatype policy_document =
    LambdaExecutorPolicy
  | LoggingPolicy "string option"
  | S3AccessPolicy string

text \<open>
  A request object of the provider's SDK: calling a service method without a callback
  only builds the request. It is sent by \<open>.promise()\<close>, which also gives the promise of
  its response.
\<close>

datatype aws_request =
    IamGetRole string
  | IamCreateRole string policy_document
  | IamPutRolePolicy string string policy_document
  | LambdaCreateFunction create_function_params
  | LambdaCreateAlias string string string
  | LambdaUpdateAlias string string string
  | LambdaGetFunctionConfiguration string "string option"
  | LambdaAddPermission add_permission_params
  | ApiCreateRestApi string
  | S3GetBucketNotificationConfiguration string
  | S3PutBucketNotificationConfiguration string notification_config

record api_info =
  api_id :: string
  api_module :: "string option"
  api_url :: "string option"
  api_deploy :: "string option"

text \<open>
  The response of createFunction as the pipeline passes it on; createWebApi adds the
  property \<open>api\<close> to it.
\<close>

record lambda_metadata =
  lm_config :: function_configuration
  lm_api :: "api_info option"

record lambda_section =
  ls_role :: string
  ls_name :: string
  ls_region :: "string option"
  ls_sharedRole :: "bool option"

text \<open>
  The object built by saveConfig (written to the descriptor file) and by formatResult
  (returned to the caller); cleanup adds \<open>archive\<close> to the latter.
\<close>

record deployment =
  d_lambda :: lambda_section
  d_api :: "api_info option"
  d_s3key :: "string option"
  d_archive :: "path option"

text \<open>What a run does to the outside, in order.\<close>

datatype event =
    Sent aws_request
  | InitEnvVarsFromOptions
  | ReadJson path
  | GetOwnerInfo "string option"
  | Mkdtemp string
  | CollectFiles path "path option"
  | ValidatePackage path
  | CleanUpPackage path
  | Zipdir path
  | AddPolicy string string path
  | LambadCode "path option" "string option" "string option" "string option"
  | Require path
  | RebuildWebApi string string string
  | PostDeploy string
  | DeployProxyApi
  | WriteFile path deployment
  | RmDir "path option"
  | UnlinkSync "path option"
  | Sleep int
  | LoadConfig

section \<open>Promises\<close>

text \<open>
  The world a command runs in: the effects so far, the provider's alias table (function
  name and label to version) and the command's own variables (the \<open>let\<close> variables its
  step functions share).
\<close>

record 'v world =
  trace :: "event list"
  aliases :: "string \<times> string \<rightharpoonup> string"
  vars :: 'v

text \<open>A promise settles with a rejection (\<open>Inl\<close>) or a value (\<open>Inr\<close>), in a new world.\<close>

type_synonym ('v, 'a) promise = "'v world \<Rightarrow> (error + 'a) \<times> 'v world"

definition resolve :: "'a \<Rightarrow> ('v, 'a) promise" where
  "resolve x = (\<lambda>w. (Inr x, w))"

definition reject :: "error \<Rightarrow> ('v, 'a) promise" where
  "reject e = (\<lambda>w. (Inl e, w))"

text \<open>\<open>p.then(f)\<close>: \<open>f\<close> runs only when \<open>p\<close> is fulfilled; a rejection passes through.\<close>

definition and_then :: "('v, 'a) promise \<Rightarrow> ('a \<Rightarrow> ('v, 'b) promise) \<Rightarrow> ('v, 'b) promise" where
  "and_then p f =
     (\<lambda>w. case p w of
             (Inl e, w') \<Rightarrow> (Inl e, w')
           | (Inr x, w') \<Rightarrow> f x w')"

text \<open>\<open>p.catch(h)\<close>.\<close>

definition or_catch :: "('v, 'a) promise \<Rightarrow> (error \<Rightarrow> ('v, 'a) promise) \<Rightarrow> ('v, 'a) promise" where
  "or_catch p h =
     (\<lambda>w. case p w of
             (Inl e, w') \<Rightarrow> h e w'
           | (Inr x, w') \<Rightarrow> (Inr x, w'))"

text \<open>A call to a collaborator: the effect is recorded, the outcome is the collaborator's.\<close>

definition perform :: "event \<Rightarrow> error + 'a \<Rightarrow> ('v, 'a) promise" where
  "perform ev outcome = (\<lambda>w. (outcome, w\<lparr>trace := trace w @ [ev]\<rparr>))"

text \<open>\<open>request.promise()\<close>: sends the request.\<close>

definition promise :: "aws_request \<Rightarrow> error + 'a \<Rightarrow> ('v, 'a) promise" where
  "promise request outcome = perform (Sent request) outcome"

text \<open>Reading and assigning the command's variables.\<close>

definition read_vars :: "('v \<Rightarrow> ('v, 'a) promise) \<Rightarrow> ('v, 'a) promise" where
  "read_vars f = (\<lambda>w. f (vars w) w)"

definition assign :: "('v \<Rightarrow> 'v) \<Rightarrow> 'a \<Rightarrow> ('v, 'a) promise" where
  "assign u x = (\<lambda>w. (Inr x, w\<lparr>vars := u (vars w)\<rparr>))"

text \<open>
  \<open>Promise.all\<close>: every promise of the list is started; the result is the list of
  values, or the rejection of the first one (in list order) that failed.
\<close>

fun promise_all :: "('v, 'a) promise list \<Rightarrow> ('v, 'a list) promise" where
  "promise_all [] = resolve []"
| "promise_all (p # ps) =
     (\<lambda>w. case p w of
             (r, w') \<Rightarrow>
               (case promise_all ps w' of
                  (rs, w'') \<Rightarrow>
                    ((case r of
                        Inl e \<Rightarrow> Inl e
                      | Inr x \<Rightarrow> (case rs of Inl e \<Rightarrow> Inl e | Inr xs \<Rightarrow> Inr (x # xs))),
                     w'')))"

text \<open>\<open>s.split(c)\<close> for a one-character separator.\<close>

fun split_on :: "char \<Rightarrow> string \<Rightarrow> string list" where
  "split_on c [] = [[]]"
| "split_on c (x # xs) =
     (if x = c then [] # split_on c xs
      else (case split_on c xs of
              [] \<Rightarrow> [[x]]
            | p # ps \<Rightarrow> (x # p) # ps))"

section \<open>The S3 event source command\<close>

text \<open>Source: \<^verbatim>\<open>src/unnamed/part_000\<close> (\<open>addS3EventSource\<close>).\<close>

record s3_options =
  s3_bucket :: "string option"
  s3_prefix :: "string option"
  s3_suffix :: "string option"
  s3_version :: "string option"
  s3_events :: "string option"

text \<open>
  \<open>config.lambda\<close> of the loaded descriptor; readConfig adds \<open>arn\<close> and \<open>version\<close>.
\<close>

record lambda_config =
  lc_name :: string
  lc_region :: string
  lc_role :: string
  lc_arn :: "string option"
  lc_version :: "string option"

text \<open>The variables \<open>lambdaConfig\<close> and \<open>awsPartition\<close> of the command.\<close>

record s3_vars =
  lambdaConfig :: "lambda_config option"
  s3_awsPartition :: "string option"

text \<open>
  The collaborators: loadConfig and iamNameSanitize (utilities outside the sources), the
  provider's answers, and \<open>ts\<close>, the decimal rendering of \<open>Date.now()\<close>.
\<close>

record s3_env =
  s3e_loadConfig :: "error + lambda_config"
  s3e_getFunctionConfiguration :: "string \<Rightarrow> string option \<Rightarrow> error + function_configuration"
  s3e_putRolePolicy :: "string \<Rightarrow> string \<Rightarrow> error + unit"
  s3e_getBucketNotificationConfiguration :: "string \<Rightarrow> error + notification_config option"
  s3e_putBucketNotificationConfiguration :: "string \<Rightarrow> notification_config \<Rightarrow> error + unit"
  s3e_iamNameSanitize :: "string \<Rightarrow> string"
  s3e_ts :: string

text \<open>
  \<open>getLambda\<close> (lines 14-18). The assignment \<open>lambdaConfig = config\<close> of readConfig is
  overwritten here before it is read.
\<close>

definition getLambda :: "s3_env \<Rightarrow> s3_options \<Rightarrow> lambda_config \<Rightarrow> (s3_vars, function_configuration) promise" where
  "getLambda env options config =
     and_then (assign (\<lambda>v. v\<lparr>lambdaConfig := Some config\<rparr>) ())
       (\<lambda>_. promise (LambdaGetFunctionConfiguration (lc_name config) (s3_version options))
               (s3e_getFunctionConfiguration env (lc_name config) (s3_version options)))"

text \<open>\<open>result.FunctionArn.split(':')[1]\<close>.\<close>

definition partition_of :: "string \<Rightarrow> string option" where
  "partition_of arn =
     (case split_on CHR '':'' arn of
        _ # p # _ \<Rightarrow> Some p
      | _ \<Rightarrow> None)"

text \<open>\<open>readConfig\<close> (lines 19-31).\<close>

definition readConfig :: "s3_env \<Rightarrow> s3_options \<Rightarrow> (s3_vars, unit) promise" where
  "readConfig env options =
     and_then (and_then (and_then
       (perform LoadConfig (s3e_loadConfig env))
       (\<lambda>config. resolve config))
       (getLambda env options))
       (\<lambda>result. read_vars (\<lambda>v.
          case lambdaConfig v of
            None \<Rightarrow> reject TypeError
          | Some lc \<Rightarrow>
              assign (\<lambda>v. v\<lparr>lambdaConfig :=
                              Some (lc\<lparr>lc_arn := Some (FunctionArn result),
                                       lc_version := Some (Version result)\<rparr>),
                            s3_awsPartition := partition_of (FunctionArn result)\<rparr>) ()))"

text \<open>\<open>addS3AccessPolicy\<close> (lines 32-52).\<close>

definition addS3AccessPolicy :: "s3_env \<Rightarrow> s3_options \<Rightarrow> (s3_vars, unit) promise" where
  "addS3AccessPolicy env options =
     read_vars (\<lambda>v.
       case lambdaConfig v of
         None \<Rightarrow> reject TypeError
       | Some lc \<Rightarrow>
           (let policyName = s3e_iamNameSanitize env
                  (''s3-'' @ render (s3_bucket options) @ ''-access-'' @ s3e_ts env)
            in promise
                 (IamPutRolePolicy (lc_role lc) policyName
                    (S3AccessPolicy (''arn:'' @ render (s3_awsPartition v) @ '':s3:::''
                                      @ render (s3_bucket options) @ ''/*'')))
                 (s3e_putRolePolicy env (lc_role lc) policyName)))"

text \<open>
  \<open>addInvokePermission\<close> (lines 53-62). The function returns what
  \<open>lambda.addPermission({...})\<close> returns, the request object: \<open>.promise()\<close> is not called
  on it, so nothing is sent, and the \<open>.then\<close> that called the function is fulfilled with
  the request at once.
\<close>

definition addInvokePermission :: "s3_env \<Rightarrow> s3_options \<Rightarrow> (s3_vars, aws_request) promise" where
  "addInvokePermission env options =
     read_vars (\<lambda>v.
       case lambdaConfig v of
         None \<Rightarrow> reject TypeError
       | Some lc \<Rightarrow>
           resolve (LambdaAddPermission
             \<lparr> ap_Action = ''lambda:InvokeFunction'',
               ap_FunctionName = lc_name lc,
               ap_Principal = ''s3.amazonaws.com'',
               ap_SourceArn = ''arn:'' @ render (s3_awsPartition v) @ '':s3:::''
                                @ render (s3_bucket options),
               ap_Qualifier = s3_version options,
               ap_StatementId = s3e_iamNameSanitize env
                  (render (s3_bucket options) @ ''-access-'' @ s3e_ts env) \<rparr>))"

text \<open>\<open>addBucketNotificationConfig\<close>, lines 64-89: the new rule.\<close>

definition filterRules :: "s3_options \<Rightarrow> filter_rule list" where
  "filterRules options =
     (if truthy (s3_prefix options)
      then [\<lparr> fr_Name = ''prefix'', fr_Value = render (s3_prefix options) \<rparr>] else [])
     @ (if truthy (s3_suffix options)
        then [\<lparr> fr_Name = ''suffix'', fr_Value = render (s3_suffix options) \<rparr>] else [])"

definition eventConfig :: "s3_options \<Rightarrow> lambda_config \<Rightarrow> event_config" where
  "eventConfig options lc =
     (let events = (if truthy (s3_events options)
                    then split_on CHR '','' (render (s3_events options))
                    else [''s3:ObjectCreated:*''])
      in \<lparr> ec_Id = None,
           ec_LambdaFunctionArn = lc_arn lc,
           ec_Events = events,
           ec_Filter = (if length (filterRules options) \<noteq> 0
                        then Some (filterRules options) else None) \<rparr>)"

text \<open>
  Lines 94-98: the merge. An absent configuration is replaced by the empty object, an
  absent list by the empty list (an empty list is truthy and is kept), and the new rule
  is pushed at the end.
\<close>

definition merged :: "notification_config option \<Rightarrow> event_config \<Rightarrow> notification_config" where
  "merged currentConfig rule =
     (let m = (case currentConfig of
                 None \<Rightarrow> \<lparr> LambdaFunctionConfigurations = None,
                            TopicConfigurations = None, QueueConfigurations = None \<rparr>
               | Some c \<Rightarrow> c);
          m' = (case LambdaFunctionConfigurations m of
                  None \<Rightarrow> m\<lparr>LambdaFunctionConfigurations := Some []\<rparr>
                | Some _ \<Rightarrow> m)
      in m'\<lparr>LambdaFunctionConfigurations :=
              map_option (\<lambda>rules. rules @ [rule]) (LambdaFunctionConfigurations m')\<rparr>)"

text \<open>\<open>addBucketNotificationConfig\<close> (lines 63-104).\<close>

definition addBucketNotificationConfig :: "s3_env \<Rightarrow> s3_options \<Rightarrow> (s3_vars, unit) promise" where
  "addBucketNotificationConfig env options =
     read_vars (\<lambda>v.
       case lambdaConfig v of
         None \<Rightarrow> reject TypeError
       | Some lc \<Rightarrow>
           and_then
             (promise (S3GetBucketNotificationConfiguration (render (s3_bucket options)))
                (s3e_getBucketNotificationConfiguration env (render (s3_bucket options))))
             (\<lambda>currentConfig.
                promise
                  (S3PutBucketNotificationConfiguration (render (s3_bucket options))
                     (merged currentConfig (eventConfig options lc)))
                  (s3e_putBucketNotificationConfiguration env (render (s3_bucket options))
                     (merged currentConfig (eventConfig options lc)))))"

text \<open>\<open>addS3EventSource\<close> (lines 106-112).\<close>

definition addS3EventSource :: "s3_env \<Rightarrow> s3_options \<Rightarrow> (s3_vars, unit) promise" where
  "addS3EventSource env options =
     (if \<not> truthy (s3_bucket options) then reject (Message NoBucket)
      else
        and_then (and_then (and_then
          (readConfig env options)
          (\<lambda>_. addS3AccessPolicy env options))
          (\<lambda>_. addInvokePermission env options))
          (\<lambda>_. addBucketNotificationConfig env options))"

text \<open>A bucket that already has one subscription, and a run against it.\<close>

definition example_rule :: event_config where
  "example_rule =
     \<lparr> ec_Id = Some ''other-tool'', ec_LambdaFunctionArn = Some ''arn:aws:lambda:f0'',
       ec_Events = [''s3:ObjectRemoved:*''], ec_Filter = None \<rparr>"

definition example_s3_env :: s3_env where
  "example_s3_env =
     \<lparr> s3e_loadConfig = Inr \<lparr> lc_name = ''fn'', lc_region = ''us-east-1'', lc_role = ''fn-role'',
                              lc_arn = None, lc_version = None \<rparr>,
       s3e_getFunctionConfiguration =
         (\<lambda>n q. Inr \<lparr> FunctionName = n, FunctionArn = ''arn:aws:lambda:fn'', Version = ''1'' \<rparr>),
       s3e_putRolePolicy = (\<lambda>r p. Inr ()),
       s3e_getBucketNotificationConfiguration =
         (\<lambda>b. Inr (Some \<lparr> LambdaFunctionConfigurations = Some [example_rule],
                          TopicConfigurations = Some [''topic''], QueueConfigurations = None \<rparr>)),
       s3e_putBucketNotificationConfiguration = (\<lambda>b c. Inr ()),
       s3e_iamNameSanitize = (\<lambda>s. s),
       s3e_ts = ''1700000000000'' \<rparr>"

definition example_s3_options :: s3_options where
  "example_s3_options =
     \<lparr> s3_bucket = Some ''pics'', s3_prefix = Some ''in/'', s3_suffix = None,
       s3_version = None, s3_events = None \<rparr>"

definition s3_start :: "s3_vars world" where
  "s3_start = \<lparr> trace = [], aliases = Map.empty,
                vars = \<lparr> lambdaConfig = None, s3_awsPartition = None \<rparr> \<rparr>"

definition example_lambda_config :: lambda_config where
  "example_lambda_config =
     \<lparr> lc_name = ''fn'', lc_region = ''us-east-1'', lc_role = ''fn-role'',
       lc_arn = Some ''arn:aws:lambda:fn'', lc_version = Some ''1'' \<rparr>"

definition s3_ready :: "s3_vars world" where
  "s3_ready = \<lparr> trace = [], aliases = Map.empty,
                vars = \<lparr> lambdaConfig = Some example_lambda_config,
                         s3_awsPartition = Some ''aws'' \<rparr> \<rparr>"

text \<open>The subscription list of a fetched configuration; none when there is no list.\<close>

definition existing_rules :: "notification_config option \<Rightarrow> event_config list" where
  "existing_rules currentConfig =
     (case currentConfig of
        None \<Rightarrow> []
      | Some c \<Rightarrow> (case LambdaFunctionConfigurations c of None \<Rightarrow> [] | Some rules \<Rightarrow> rules))"

definition is_permission_request :: "event \<Rightarrow> bool" where
  "is_permission_request ev = (case ev of Sent (LambdaAddPermission _) \<Rightarrow> True | _ \<Rightarrow> False)"

definition is_notification_write :: "event \<Rightarrow> bool" where
  "is_notification_write ev =
     (case ev of Sent (S3PutBucketNotificationConfiguration _ _) \<Rightarrow> True | _ \<Rightarrow> False)"

section \<open>The create command\<close>

text \<open>Source: src/src/command/create.js.\<close>

record package_json =
  pkg_name :: "string option"
  pkg_description :: "string option"

record package_info =
  pi_name :: string
  pi_description :: "string option"

record owner_info =
  oi_account :: string
  oi_partition :: string

text \<open>\<open>{Role: {RoleName, Arn}}\<close>.\<close>

record role_metadata =
  RoleName :: string
  Arn :: string

text \<open>
  What \<open>require\<close> gives for the api module: the value of its \<open>apiConfig()\<close> (falsy
  when the module has none), and what its \<open>postDeploy\<close> hook settles with (\<open>None\<close> when
  the module has no hook).
\<close>

record api_module_desc =
  am_apiConfig :: "string option"
  am_postDeploy :: "(error + string option) option"

text \<open>
  Lines 45-64 take the logger and build the provider's clients; no request is made
  there. Logging (\<open>logStage\<close>, \<open>logApiCall\<close>) does not change a run and is left out.
\<close>

text \<open>
  The collaborators of the command, none of them among the sources: the process
  (\<open>process.env.AWS_DELAY\<close>, \<open>process.cwd()\<close>, \<open>os.tmpdir() + path.sep\<close>), the \<open>path\<close>
  module, the utilities under util/ and aws/, and the provider's answers to each
  request. The answer to createFunction depends on how many createFunction requests
  were sent before.
\<close>

record env =
  e_AWS_DELAY :: "string option"
  e_cwd :: path
  e_tmpdir_sep :: string
  e_path_join :: "path \<Rightarrow> path \<Rightarrow> path"
  e_path_dirname :: "path \<Rightarrow> path"
  e_path_basename :: "path \<Rightarrow> string"
  e_path_resolve :: "path \<Rightarrow> path"
  e_isDir :: "path \<Rightarrow> bool"
  e_isFile :: "path \<Rightarrow> bool"
  e_fileExists :: "path \<Rightarrow> bool"
  e_recursiveList :: "string \<Rightarrow> path list"
  e_isRoleArn :: "string \<Rightarrow> bool"
  e_apiGWUrl :: "string \<Rightarrow> string option \<Rightarrow> string \<Rightarrow> string"
  e_initEnvVarsFromOptions :: "error + envvars option"
  e_readJson :: "path \<Rightarrow> error + package_json"
  e_getOwnerInfo :: "string option \<Rightarrow> error + owner_info"
  e_mkdtemp :: "string \<Rightarrow> error + path"
  e_collectFiles :: "path \<Rightarrow> path option \<Rightarrow> error + path"
  e_validatePackage :: "path \<Rightarrow> error + path"
  e_cleanUpPackage :: "path \<Rightarrow> error + path"
  e_zipdir :: "path \<Rightarrow> error + path"
  e_getRole :: "string \<Rightarrow> error + role_metadata"
  e_createRole :: "string \<Rightarrow> error + role_metadata"
  e_putRolePolicy :: "string \<Rightarrow> string \<Rightarrow> error + unit"
  e_addPolicy :: "string \<Rightarrow> string \<Rightarrow> path \<Rightarrow> error + unit"
  e_lambadCode :: "path option \<Rightarrow> string option \<Rightarrow> string option \<Rightarrow> string option
                     \<Rightarrow> error + function_code"
  e_createFunction :: "nat \<Rightarrow> create_function_params \<Rightarrow> error + function_configuration"
  e_createAlias :: "string \<Rightarrow> string \<Rightarrow> string \<Rightarrow> error option"
  e_updateAlias :: "string \<Rightarrow> string \<Rightarrow> string \<Rightarrow> error option"
  e_require :: "path \<Rightarrow> error + api_module_desc"
  e_createRestApi :: "string \<Rightarrow> error + string"
  e_rebuildWebApi :: "string \<Rightarrow> string \<Rightarrow> string \<Rightarrow> error + unit"
  e_deployProxyApi :: "lambda_metadata \<Rightarrow> error + lambda_metadata"
  e_writeFile :: "path \<Rightarrow> deployment \<Rightarrow> error + unit"
  e_rmDir :: "path option \<Rightarrow> error + unit"
  e_unlinkSync :: "path option \<Rightarrow> error + unit"

text \<open>The \<open>let\<close> variables of \<open>create\<close> (lines 34-43), all undefined at the start.\<close>

record create_vars =
  roleMetadata :: "role_metadata option"
  s3Key :: "string option"
  packageArchive :: "path option"
  functionDesc :: "string option"
  customEnvVars :: "envvars option"
  functionName :: "string option"
  workingDir :: "path option"
  ownerAccount :: "string option"
  awsPartition :: "string option"
  packageFileDir :: "path option"

text \<open>Lines 52-53.\<close>

definition source :: "env \<Rightarrow> options \<Rightarrow> path" where
  "source env options =
     (if truthy (opt_source options) then render (opt_source options) else e_cwd env)"

definition configFile :: "env \<Rightarrow> options \<Rightarrow> path" where
  "configFile env options =
     (if truthy (opt_config options) then render (opt_config options)
      else e_path_join env (source env options) ''sln.json'')"

text \<open>\<open>policyFiles\<close> (lines 67-73).\<close>

definition policyFiles :: "env \<Rightarrow> options \<Rightarrow> path list" where
  "policyFiles env options =
     (let files = e_recursiveList env (render (opt_policies options));
          files' = (if e_isDir env (render (opt_policies options))
                    then map (e_path_join env (render (opt_policies options))) files
                    else files)
      in filter (e_isFile env) files')"

text \<open>
  \<open>validationError\<close> (lines 76-136); \<open>None\<close> is the \<open>undefined\<close> the function returns
  when no check fails.
\<close>

definition validationError :: "env \<Rightarrow> options \<Rightarrow> message option" where
  "validationError env options =
     (if \<not> truthy (opt_region options) then Some RegionUndefined
      else if \<not> truthy (opt_handler options) \<and> \<not> truthy (opt_api_module options)
        then Some HandlerUndefined
      else if truthy (opt_handler options) \<and> truthy (opt_api_module options)
        then Some HandlerWithApiModule
      else if \<not> truthy (opt_handler options) \<and> opt_deploy_proxy_api options
        then Some ProxyApiNeedsHandler
      else if truthy (opt_handler options) \<and> \<not> has_dot (opt_handler options)
        then Some HandlerWithoutFunction
      else if truthy (opt_api_module options) \<and> has_dot (opt_api_module options)
        then Some ApiModuleHasDot
      else if \<not> e_isDir env (e_path_dirname env (configFile env options))
        then Some CannotWriteConfig
      else if e_fileExists env (configFile env options)
        then (if truthy (opt_config options) then Some ConfigExists else Some SlnJsonExists)
      else if \<not> e_fileExists env (e_path_join env (source env options) ''package.json'')
        then Some NoPackageJson
      else if truthy (opt_policies options) \<and> length (policyFiles env options) = 0
        then Some NoPolicyFiles
      else if (case opt_memory options of None \<Rightarrow> False | Some m \<Rightarrow> m < 128)
        then Some MemoryTooLow
      else if (case opt_memory options of None \<Rightarrow> False | Some m \<Rightarrow> m > 3008)
        then Some MemoryTooHigh
      else if (case opt_memory options of None \<Rightarrow> False | Some m \<Rightarrow> m mod 64 \<noteq> 0)
        then Some MemoryNotMultiple
      else if (case opt_timeout options of None \<Rightarrow> False | Some t \<Rightarrow> t < 1)
        then Some TimeoutTooLow
      else if (case opt_timeout options of None \<Rightarrow> False | Some t \<Rightarrow> t > 9000)
        then Some TimeoutTooHigh
      else if opt_allow_recursion options \<and> truthy (opt_role options)
              \<and> e_isRoleArn env (render (opt_role options))
        then Some RecursionWithRoleArn
      else if truthy (opt_s3_key options) \<and> \<not> truthy (opt_use_s3_bucket options)
        then Some S3KeyWithoutBucket
      else None)"

text \<open>\<open>s.trim()\<close> (ASCII white space).\<close>

definition trim :: "string \<Rightarrow> string" where
  "trim s = rev (dropWhile is_space (rev (dropWhile is_space s)))"

text \<open>\<open>getPackageInfo\<close> (lines 139-153).\<close>

definition getPackageInfo :: "env \<Rightarrow> options \<Rightarrow> (create_vars, package_info) promise" where
  "getPackageInfo env options =
     and_then
       (perform (ReadJson (e_path_join env (source env options) ''package.json''))
          (e_readJson env (e_path_join env (source env options) ''package.json'')))
       (\<lambda>jsonConfig.
          let name = js_or (opt_name options) (pkg_name jsonConfig);
              description = js_or (opt_description options)
                 (if truthy (pkg_description jsonConfig)
                  then Some (trim (render (pkg_description jsonConfig)))
                  else pkg_description jsonConfig)
          in if \<not> truthy name then reject (Message NameMissing)
             else resolve \<lparr> pi_name = render name, pi_description = description \<rparr>)"

subsection \<open>The retry engine\<close>

text \<open>Reading the effects so far.\<close>

definition read_trace :: "(event list \<Rightarrow> ('v, 'a) promise) \<Rightarrow> ('v, 'a) promise" where
  "read_trace f = (\<lambda>w. f (trace w) w)"

text \<open>
  Modelled from the spec: the retry engine \<open>retry(operation, delayMs, maxAttempts,
  isRetryable, onRetry, schedulingContext)\<close>; create.js takes it from the module
  oh-no-i-insist, which is not among the sources. After section 4.1: the operation is
  invoked; a success is returned at once; on a failure that is not retryable the error
  is propagated unchanged; on a retryable failure with attempts remaining \<open>onRetry\<close> is
  invoked, the engine waits \<open>delayMs\<close> and invokes the operation again; attempts are
  capped at \<open>maxAttempts\<close>, and at the cap the last error is propagated tagged as
  retry-exhausted. The third argument of \<open>retry_loop\<close> is the number of attempts that
  remain after the one it makes.
\<close>

fun retry_loop :: "('v, 'a) promise \<Rightarrow> int \<Rightarrow> nat \<Rightarrow> (error \<Rightarrow> bool) \<Rightarrow> ('v, unit) promise
                     \<Rightarrow> ('v, 'a) promise" where
  "retry_loop operation delayMs 0 isRetryable onRetry =
     or_catch operation
       (\<lambda>e. if isRetryable e then reject (RetryExhausted e) else reject e)"
| "retry_loop operation delayMs (Suc n) isRetryable onRetry =
     or_catch operation
       (\<lambda>e. if isRetryable e
             then and_then (and_then onRetry (\<lambda>_. perform (Sleep delayMs) (Inr ())))
                    (\<lambda>_. retry_loop operation delayMs n isRetryable onRetry)
             else reject e)"

text \<open>
  Modelled from the spec: the entry point of the engine. Of \<open>maxAttempts\<close> attempts,
  \<open>maxAttempts - 1\<close> remain after the first (none when \<open>maxAttempts\<close> is below 1: the
  operation is always invoked once).
\<close>

definition retry :: "('v, 'a) promise \<Rightarrow> int \<Rightarrow> int \<Rightarrow> (error \<Rightarrow> bool) \<Rightarrow> ('v, unit) promise
                       \<Rightarrow> ('v, 'a) promise" where
  "retry operation delayMs maxAttempts isRetryable onRetry =
     retry_loop operation delayMs (nat (maxAttempts - 1)) isRetryable onRetry"

subsection \<open>Creating the function\<close>

definition is_create_function :: "event \<Rightarrow> bool" where
  "is_create_function ev = (case ev of Sent (LambdaCreateFunction _) \<Rightarrow> True | _ \<Rightarrow> False)"

definition create_requests :: "event list \<Rightarrow> nat" where
  "create_requests t = length (filter is_create_function t)"

text \<open>The parameters of the createFunction request (lines 160-173).\<close>

definition createFunction_params ::
  "options \<Rightarrow> create_vars \<Rightarrow> string option \<Rightarrow> string option \<Rightarrow> function_code \<Rightarrow> string
     \<Rightarrow> create_function_params" where
  "createFunction_params options v name desc functionCode roleArn =
     \<lparr> cf_Code = functionCode,
       cf_FunctionName = name,
       cf_Description = desc,
       cf_MemorySize = opt_memory options,
       cf_Timeout = opt_timeout options,
       cf_Environment = customEnvVars v,
       cf_KMSKeyArn = opt_env_kms_key_arn options,
       cf_Handler = (if truthy (opt_handler options) then render (opt_handler options)
                     else render (opt_api_module options) @ ''.proxyRouter''),
       cf_Role = roleArn,
       cf_Runtime = (if truthy (opt_runtime options) then render (opt_runtime options)
                     else ''nodejs12.x''),
       cf_Publish = True,
       cf_Layers = (if truthy (opt_Layers options)
                    then Some (split_on CHR '','' (render (opt_Layers options))) else None) \<rparr>"

text \<open>
  The operation given to \<open>retry\<close> (lines 158-174): one createFunction request. The
  response is passed on as the metadata object, which has no \<open>api\<close> property yet.
\<close>

definition createFunction_call ::
  "env \<Rightarrow> options \<Rightarrow> string option \<Rightarrow> string option \<Rightarrow> function_code \<Rightarrow> string
     \<Rightarrow> (create_vars, lambda_metadata) promise" where
  "createFunction_call env options name desc functionCode roleArn =
     read_vars (\<lambda>v. read_trace (\<lambda>t.
       and_then
         (promise
            (LambdaCreateFunction
               (createFunction_params options v name desc functionCode roleArn))
            (e_createFunction env (create_requests t)
               (createFunction_params options v name desc functionCode roleArn)))
         (\<lambda>response. resolve \<lparr> lm_config = response, lm_api = None \<rparr>)))"

text \<open>The predicate given to \<open>retry\<close> (lines 177-179).\<close>

definition isRetryable :: "error \<Rightarrow> bool" where
  "isRetryable error = (error_code error = Some ''InvalidParameterValueException'')"

text \<open>\<open>createLambda\<close> (lines 156-183); \<open>onRetry\<close> only logs.\<close>

definition createLambda ::
  "env \<Rightarrow> options \<Rightarrow> string option \<Rightarrow> string option \<Rightarrow> function_code \<Rightarrow> string
     \<Rightarrow> (create_vars, lambda_metadata) promise" where
  "createLambda env options name desc functionCode roleArn =
     retry (createFunction_call env options name desc functionCode roleArn)
       (awsDelay options (e_AWS_DELAY env))
       (awsRetries options)
       isRetryable
       (resolve ())"

subsection \<open>Aliases\<close>

text \<open>
  Modelled from the spec: the provider's side of \<open>createOrUpdateAlias\<close> (sections 4.2
  and 4.5), as two requests on its alias table; the requests are made by util/mark-alias,
  which is not among the sources. Creating a label that exists is a conflict, updating
  one that does not exist finds nothing; either request can also fail for a reason of
  the provider's own.
\<close>

definition createAlias :: "env \<Rightarrow> string \<Rightarrow> string \<Rightarrow> string \<Rightarrow> ('v, unit) promise" where
  "createAlias env name version label =
     (\<lambda>w. let w' = w\<lparr>trace := trace w @ [Sent (LambdaCreateAlias name version label)]\<rparr>
           in case e_createAlias env name version label of
                Some e \<Rightarrow> (Inl e, w')
              | None \<Rightarrow>
                  (case aliases w (name, label) of
                     Some _ \<Rightarrow> (Inl (AwsError ''ResourceConflictException''), w')
                   | None \<Rightarrow> (Inr (), w'\<lparr>aliases := (aliases w)((name, label) \<mapsto> version)\<rparr>)))"

definition updateAlias :: "env \<Rightarrow> string \<Rightarrow> string \<Rightarrow> string \<Rightarrow> ('v, unit) promise" where
  "updateAlias env name version label =
     (\<lambda>w. let w' = w\<lparr>trace := trace w @ [Sent (LambdaUpdateAlias name version label)]\<rparr>
           in case e_updateAlias env name version label of
                Some e \<Rightarrow> (Inl e, w')
              | None \<Rightarrow>
                  (case aliases w (name, label) of
                     None \<Rightarrow> (Inl (AwsError ''ResourceNotFoundException''), w')
                   | Some _ \<Rightarrow> (Inr (), w'\<lparr>aliases := (aliases w)((name, label) \<mapsto> version)\<rparr>)))"

text \<open>
  Modelled from the spec: \<open>markAlias(functionName, lambda, version, label)\<close> of
  util/mark-alias, which is not among the sources. After section 4.5 (ensureAlias):
  attempt to create the alias; if the provider already has an alias with that label,
  update it to point at the version instead.
\<close>

definition markAlias :: "env \<Rightarrow> string \<Rightarrow> string \<Rightarrow> string \<Rightarrow> ('v, unit) promise" where
  "markAlias env name version label =
     or_catch (createAlias env name version label)
       (\<lambda>e. if error_code e = Some ''ResourceConflictException''
             then updateAlias env name version label
             else reject e)"

text \<open>\<open>markAliases\<close> (lines 186-196).\<close>

definition markAliases :: "env \<Rightarrow> options \<Rightarrow> lambda_metadata \<Rightarrow> ('v, lambda_metadata) promise" where
  "markAliases env options lambdaData =
     and_then (and_then
       (markAlias env (FunctionName (lm_config lambdaData)) ''$LATEST'' ''latest'')
       (\<lambda>_. if truthy (opt_version options)
             then markAlias env (FunctionName (lm_config lambdaData))
                    (Version (lm_config lambdaData)) (render (opt_version options))
             else resolve ()))
       (\<lambda>_. resolve lambdaData)"

subsection \<open>The gateway\<close>

text \<open>
  \<open>createWebApi\<close> (lines 199-251). The \<open>try\<close> block turns any failure of loading the
  module (and of \<open>path.join\<close> on an undefined directory) into the rejection of line 209.
  \<open>apiGatewayPromise\<close> is the gateway client behind retriableWrap (not among the
  sources); its createRestApiPromise is taken with the outcome it finally has. The
  metadata object the source mutates is passed from step to step.
\<close>

definition createWebApi ::
  "env \<Rightarrow> options \<Rightarrow> lambda_metadata \<Rightarrow> path option \<Rightarrow> (create_vars, lambda_metadata) promise" where
  "createWebApi env options lambdaMetadata packageDir =
     (let alias = (if truthy (opt_version options) then render (opt_version options)
                   else ''latest'');
          name = FunctionName (lm_config lambdaMetadata)
      in case packageDir of
           None \<Rightarrow> reject (Message CannotLoadApiConfig)
         | Some dir \<Rightarrow>
             and_then
               (or_catch
                  (perform
                     (Require (e_path_resolve env
                                 (e_path_join env dir (render (opt_api_module options)))))
                     (e_require env (e_path_resolve env
                                 (e_path_join env dir (render (opt_api_module options))))))
                  (\<lambda>e. reject (Message CannotLoadApiConfig)))
               (\<lambda>apiModule.
                  case am_apiConfig apiModule of
                    None \<Rightarrow> reject (Message NoApiConfig)
                  | Some apiConfig \<Rightarrow>
                      and_then (and_then (and_then
                        (promise (ApiCreateRestApi name) (e_createRestApi env name))
                        (\<lambda>result.
                           and_then
                             (perform (RebuildWebApi name alias result)
                                (e_rebuildWebApi env name alias result))
                             (\<lambda>_. resolve
                                (lambdaMetadata\<lparr>lm_api := Some
                                   \<lparr> api_id = result,
                                     api_module = opt_api_module options,
                                     api_url = Some (e_apiGWUrl env result (opt_region options) alias),
                                     api_deploy = None \<rparr>\<rparr>))))
                        (\<lambda>metadata.
                           case am_postDeploy apiModule of
                             None \<Rightarrow> resolve (metadata, None)
                           | Some outcome \<Rightarrow>
                               and_then (perform (PostDeploy name) outcome)
                                 (\<lambda>postDeployResult. resolve (metadata, postDeployResult))))
                        (\<lambda>(metadata, postDeployResult).
                           if truthy postDeployResult
                           then resolve
                                  (metadata\<lparr>lm_api :=
                                     map_option (\<lambda>a. a\<lparr>api_deploy := postDeployResult\<rparr>)
                                       (lm_api metadata)\<rparr>)
                           else resolve metadata)))"

subsection \<open>The descriptor and the result\<close>

text \<open>The \<open>lambda\<close> section both objects start with (lines 255-264 and 279-288).\<close>

definition lambda_section_of :: "options \<Rightarrow> role_metadata \<Rightarrow> lambda_metadata \<Rightarrow> lambda_section" where
  "lambda_section_of options rm lambdaMetadata =
     \<lparr> ls_role = RoleName rm,
       ls_name = FunctionName (lm_config lambdaMetadata),
       ls_region = opt_region options,
       ls_sharedRole = (if truthy (opt_role options) then Some True else None) \<rparr>"

text \<open>
  \<open>saveConfig\<close> (lines 254-275): the object written to the descriptor file has the
  \<open>lambda\<close> section and, when the metadata has an \<open>api\<close>, its id and module.
\<close>

definition saved_config :: "options \<Rightarrow> role_metadata \<Rightarrow> lambda_metadata \<Rightarrow> deployment" where
  "saved_config options rm lambdaMetadata =
     \<lparr> d_lambda = lambda_section_of options rm lambdaMetadata,
       d_api = (case lm_api lambdaMetadata of
                  None \<Rightarrow> None
                | Some a \<Rightarrow> Some \<lparr> api_id = api_id a, api_module = api_module a,
                                   api_url = None, api_deploy = None \<rparr>),
       d_s3key = None,
       d_archive = None \<rparr>"

definition saveConfig :: "env \<Rightarrow> options \<Rightarrow> lambda_metadata \<Rightarrow> (create_vars, lambda_metadata) promise" where
  "saveConfig env options lambdaMetadata =
     read_vars (\<lambda>v.
       case roleMetadata v of
         None \<Rightarrow> reject TypeError
       | Some rm \<Rightarrow>
           and_then
             (perform (WriteFile (configFile env options) (saved_config options rm lambdaMetadata))
                (e_writeFile env (configFile env options) (saved_config options rm lambdaMetadata)))
             (\<lambda>_. resolve lambdaMetadata))"

text \<open>\<open>formatResult\<close> (lines 278-296).\<close>

definition formatResult :: "options \<Rightarrow> lambda_metadata \<Rightarrow> (create_vars, deployment) promise" where
  "formatResult options lambdaMetadata =
     read_vars (\<lambda>v.
       case roleMetadata v of
         None \<Rightarrow> reject TypeError
       | Some rm \<Rightarrow>
           resolve
             \<lparr> d_lambda = lambda_section_of options rm lambdaMetadata,
               d_api = lm_api lambdaMetadata,
               d_s3key = (if truthy (s3Key v) then s3Key v else None),
               d_archive = None \<rparr>)"

subsection \<open>Role and policies\<close>

text \<open>\<open>loadRole\<close> (lines 299-317).\<close>

definition loadRole :: "env \<Rightarrow> options \<Rightarrow> string option \<Rightarrow> (create_vars, role_metadata) promise" where
  "loadRole env options name =
     (if truthy (opt_role options)
      then (if e_isRoleArn env (render (opt_role options))
            then resolve \<lparr> RoleName = render (opt_role options), Arn = render (opt_role options) \<rparr>
            else promise (IamGetRole (render (opt_role options)))
                   (e_getRole env (render (opt_role options))))
      else promise (IamCreateRole (render name @ ''-role'') LambdaExecutorPolicy)
             (e_createRole env (render name @ ''-role'')))"

text \<open>
  \<open>path.basename(fileName).replace(/[^A-z0-9]/g, '-')\<close>: the class keeps the codes from
  \<open>A\<close> (65) to \<open>z\<close> (122) and the digits.
\<close>

definition policyName :: "env \<Rightarrow> path \<Rightarrow> string" where
  "policyName env fileName =
     map (\<lambda>c. if (65 \<le> (of_char c :: nat) \<and> (of_char c :: nat) \<le> 122)
                   \<or> (48 \<le> (of_char c :: nat) \<and> (of_char c :: nat) \<le> 57)
               then c else CHR ''-'')
       (e_path_basename env fileName)"

text \<open>\<open>addExtraPolicies\<close> (lines 320-325).\<close>

definition addExtraPolicies :: "env \<Rightarrow> options \<Rightarrow> (create_vars, unit list) promise" where
  "addExtraPolicies env options =
     read_vars (\<lambda>v.
       case roleMetadata v of
         None \<Rightarrow> (if policyFiles env options = [] then resolve [] else reject TypeError)
       | Some rm \<Rightarrow>
           promise_all
             (map (\<lambda>fileName.
                     perform (AddPolicy (policyName env fileName) (RoleName rm) fileName)
                       (e_addPolicy env (policyName env fileName) (RoleName rm) fileName))
                (policyFiles env options)))"

subsection \<open>Cleanup and the pipeline\<close>

text \<open>\<open>cleanup\<close> (lines 328-336).\<close>

definition cleanup :: "env \<Rightarrow> options \<Rightarrow> deployment \<Rightarrow> (create_vars, deployment) promise" where
  "cleanup env options result =
     (if \<not> opt_keep options
      then read_vars (\<lambda>v.
             and_then (and_then
               (perform (RmDir (workingDir v)) (e_rmDir env (workingDir v)))
               (\<lambda>_. perform (UnlinkSync (packageArchive v)) (e_unlinkSync env (packageArchive v))))
               (\<lambda>_. resolve result))
      else read_vars (\<lambda>v. resolve (result\<lparr>d_archive := packageArchive v\<rparr>)))"

text \<open>
  The chain of lines 342-407, in five stretches; each takes the promise the chain has
  reached and continues it with its \<open>.then\<close> steps, so that their composition is the
  source's single chain.
\<close>

text \<open>Lines 342-371: environment, package information, owner, staging and archive.\<close>

definition package_steps :: "env \<Rightarrow> options \<Rightarrow> (create_vars, unit) promise" where
  "package_steps env options =
     and_then (and_then (and_then (and_then (and_then (and_then (and_then (and_then
     (and_then (and_then (and_then (and_then
       (perform InitEnvVarsFromOptions (e_initEnvVarsFromOptions env))
       (\<lambda>opts. assign (\<lambda>v. v\<lparr>customEnvVars := opts\<rparr>) opts))
       (\<lambda>_. getPackageInfo env options))
       (\<lambda>packageInfo. assign (\<lambda>v. v\<lparr>functionName := Some (pi_name packageInfo),
                                       functionDesc := pi_description packageInfo\<rparr>) ()))
       (\<lambda>_. perform (GetOwnerInfo (opt_region options)) (e_getOwnerInfo env (opt_region options))))
       (\<lambda>ownerInfo. assign (\<lambda>v. v\<lparr>ownerAccount := Some (oi_account ownerInfo),
                                     awsPartition := Some (oi_partition ownerInfo)\<rparr>) ()))
       (\<lambda>_. perform (Mkdtemp (e_tmpdir_sep env)) (e_mkdtemp env (e_tmpdir_sep env))))
       (\<lambda>dir. assign (\<lambda>v. v\<lparr>workingDir := Some dir\<rparr>) dir))
       (\<lambda>_. read_vars (\<lambda>v.
               perform (CollectFiles (source env options) (workingDir v))
                 (e_collectFiles env (source env options) (workingDir v)))))
       (\<lambda>dir. perform (ValidatePackage dir) (e_validatePackage env dir)))
       (\<lambda>dir. and_then (assign (\<lambda>v. v\<lparr>packageFileDir := Some dir\<rparr>) ())
                 (\<lambda>_. perform (CleanUpPackage dir) (e_cleanUpPackage env dir))))
       (\<lambda>dir. perform (Zipdir dir) (e_zipdir env dir)))
       (\<lambda>zipFile. assign (\<lambda>v. v\<lparr>packageArchive := Some zipFile\<rparr>) ())"

text \<open>Lines 372-389: the role, its logging policy and the extra policies.\<close>

definition role_steps :: "env \<Rightarrow> options \<Rightarrow> (create_vars, unit) promise \<Rightarrow> (create_vars, unit) promise" where
  "role_steps env options chain =
     and_then (and_then (and_then (and_then
       chain
       (\<lambda>_. read_vars (\<lambda>v. loadRole env options (functionName v))))
       (\<lambda>result. assign (\<lambda>v. v\<lparr>roleMetadata := Some result\<rparr>) ()))
       (\<lambda>_. if \<not> truthy (opt_role options)
             then read_vars (\<lambda>v.
                    case roleMetadata v of
                      None \<Rightarrow> reject TypeError
                    | Some rm \<Rightarrow>
                        promise (IamPutRolePolicy (RoleName rm) ''log-writer''
                                   (LoggingPolicy (awsPartition v)))
                          (e_putRolePolicy env (RoleName rm) ''log-writer''))
             else resolve ()))
       (\<lambda>_. if truthy (opt_policies options)
             then and_then (addExtraPolicies env options) (\<lambda>_. resolve ())
             else resolve ())"

text \<open>Lines 390-395: the code reference, the function and its aliases.\<close>

definition function_steps ::
  "env \<Rightarrow> options \<Rightarrow> (create_vars, unit) promise \<Rightarrow> (create_vars, lambda_metadata) promise" where
  "function_steps env options chain =
     and_then (and_then (and_then
       chain
       (\<lambda>_. read_vars (\<lambda>v.
               perform (LambadCode (packageArchive v) (opt_use_s3_bucket options)
                          (opt_s3_see options) (opt_s3_key options))
                 (e_lambadCode env (packageArchive v) (opt_use_s3_bucket options)
                    (opt_s3_see options) (opt_s3_key options)))))
       (\<lambda>functionCode.
          and_then (assign (\<lambda>v. v\<lparr>s3Key := fc_S3Key functionCode\<rparr>) ())
            (\<lambda>_. read_vars (\<lambda>v.
               case roleMetadata v of
                 None \<Rightarrow> reject TypeError
               | Some rm \<Rightarrow>
                   createLambda env options (functionName v) (functionDesc v) functionCode
                     (Arn rm)))))
       (markAliases env options)"

text \<open>
  Lines 390-394 alone: the stretch above up to the \<open>.then\<close> that calls createLambda,
  without the \<open>.then(markAliases)\<close> of line 395.
\<close>

definition creation_steps ::
  "env \<Rightarrow> options \<Rightarrow> (create_vars, unit) promise \<Rightarrow> (create_vars, lambda_metadata) promise" where
  "creation_steps env options chain =
     and_then (and_then
       chain
       (\<lambda>_. read_vars (\<lambda>v.
               perform (LambadCode (packageArchive v) (opt_use_s3_bucket options)
                          (opt_s3_see options) (opt_s3_key options))
                 (e_lambadCode env (packageArchive v) (opt_use_s3_bucket options)
                    (opt_s3_see options) (opt_s3_key options)))))
       (\<lambda>functionCode.
          and_then (assign (\<lambda>v. v\<lparr>s3Key := fc_S3Key functionCode\<rparr>) ())
            (\<lambda>_. read_vars (\<lambda>v.
               case roleMetadata v of
                 None \<Rightarrow> reject TypeError
               | Some rm \<Rightarrow>
                   createLambda env options (functionName v) (functionDesc v) functionCode
                     (Arn rm))))"

text \<open>Lines 396-406: the gateway, the descriptor and the result.\<close>

definition persist_steps ::
  "env \<Rightarrow> options \<Rightarrow> (create_vars, lambda_metadata) promise \<Rightarrow> (create_vars, deployment) promise" where
  "persist_steps env options chain =
     and_then (and_then (and_then
       chain
       (\<lambda>lambdaMetadata.
          if truthy (opt_api_module options)
          then read_vars (\<lambda>v. createWebApi env options lambdaMetadata (packageFileDir v))
          else if opt_deploy_proxy_api options
          then perform DeployProxyApi (e_deployProxyApi env lambdaMetadata)
          else resolve lambdaMetadata))
       (saveConfig env options))
       (formatResult options)"

text \<open>Everything before the last step of the chain.\<close>

definition provision :: "env \<Rightarrow> options \<Rightarrow> (create_vars, deployment) promise" where
  "provision env options =
     persist_steps env options
       (function_steps env options
          (role_steps env options
             (package_steps env options)))"

text \<open>
  \<open>create\<close> (lines 338-407): the rejection of a failed validation, or the chain with
  \<open>cleanup\<close> as its last \<open>.then\<close>.
\<close>

definition create :: "env \<Rightarrow> options \<Rightarrow> (create_vars, deployment) promise" where
  "create env options =
     (case validationError env options of
        Some m \<Rightarrow> reject (Message m)
      | None \<Rightarrow> and_then (provision env options) (cleanup env options))"

subsection \<open>An example deployment\<close>

text \<open>
  A project directory \<open>/proj\<close> with a package.json naming the function \<open>fn\<close>, no
  descriptor yet, and a provider that accepts every request, except that it does not
  recognise the new role during the first two createFunction requests.
\<close>

definition example_env :: env where
  "example_env =
     \<lparr> e_AWS_DELAY = None,
       e_cwd = ''/proj'',
       e_tmpdir_sep = ''/tmp/'',
       e_path_join = (\<lambda>a b. a @ ''/'' @ b),
       e_path_dirname = (\<lambda>p. ''/proj''),
       e_path_basename = (\<lambda>p. p),
       e_path_resolve = (\<lambda>p. p),
       e_isDir = (\<lambda>p. p = ''/proj''),
       e_isFile = (\<lambda>p. True),
       e_fileExists = (\<lambda>p. p = ''/proj/package.json''),
       e_recursiveList = (\<lambda>p. []),
       e_isRoleArn = (\<lambda>r. False),
       e_apiGWUrl = (\<lambda>i r a. ''https://'' @ i),
       e_initEnvVarsFromOptions = Inr None,
       e_readJson = (\<lambda>p. Inr \<lparr> pkg_name = Some ''fn'', pkg_description = None \<rparr>),
       e_getOwnerInfo = (\<lambda>r. Inr \<lparr> oi_account = ''123'', oi_partition = ''aws'' \<rparr>),
       e_mkdtemp = (\<lambda>p. Inr ''/tmp/x1''),
       e_collectFiles = (\<lambda>s d. Inr ''/tmp/x1/pkg''),
       e_validatePackage = (\<lambda>d. Inr d),
       e_cleanUpPackage = (\<lambda>d. Inr d),
       e_zipdir = (\<lambda>d. Inr ''/tmp/x1.zip''),
       e_getRole = (\<lambda>n. Inr \<lparr> RoleName = n, Arn = ''arn:aws:iam::123:role/'' @ n \<rparr>),
       e_createRole = (\<lambda>n. Inr \<lparr> RoleName = n, Arn = ''arn:aws:iam::123:role/'' @ n \<rparr>),
       e_putRolePolicy = (\<lambda>r p. Inr ()),
       e_addPolicy = (\<lambda>p r f. Inr ()),
       e_lambadCode = (\<lambda>a b s k. Inr \<lparr> fc_ZipFile = None, fc_S3Bucket = b,
                                        fc_S3Key = Some ''fn.zip'' \<rparr>),
       e_createFunction =
         (\<lambda>k p. if k < 2 then Inl (AwsError ''InvalidParameterValueException'')
                 else Inr \<lparr> FunctionName = render (cf_FunctionName p),
                            FunctionArn = ''arn:aws:lambda:fn'', Version = ''1'' \<rparr>),
       e_createAlias = (\<lambda>n v l. None),
       e_updateAlias = (\<lambda>n v l. None),
       e_require = (\<lambda>p. Inr \<lparr> am_apiConfig = Some ''routes'', am_postDeploy = None \<rparr>),
       e_createRestApi = (\<lambda>n. Inr ''api1''),
       e_rebuildWebApi = (\<lambda>n a i. Inr ()),
       e_deployProxyApi = (\<lambda>m. Inr m),
       e_writeFile = (\<lambda>p d. Inr ()),
       e_rmDir = (\<lambda>d. Inr ()),
       e_unlinkSync = (\<lambda>f. Inr ()) \<rparr>"

definition create_start :: "create_vars world" where
  "create_start =
     \<lparr> trace = [], aliases = Map.empty,
       vars = \<lparr> roleMetadata = None, s3Key = None, packageArchive = None,
                functionDesc = None, customEnvVars = None, functionName = None,
                workingDir = None, ownerAccount = None, awsPartition = None,
                packageFileDir = None \<rparr> \<rparr>"

definition example_params :: create_function_params where
  "example_params =
     \<lparr> cf_Code = \<lparr> fc_ZipFile = None, fc_S3Bucket = Some ''uploads'', fc_S3Key = Some ''fn.zip'' \<rparr>,
       cf_FunctionName = Some ''fn'', cf_Description = None, cf_MemorySize = None,
       cf_Timeout = None, cf_Environment = None, cf_KMSKeyArn = None,
       cf_Handler = ''main.handler'', cf_Role = ''arn:aws:iam::123:role/fn-role'',
       cf_Runtime = ''nodejs12.x'', cf_Publish = True, cf_Layers = None \<rparr>"

text \<open>The variables once the function code reference is known.\<close>

definition example_vars :: create_vars where
  "example_vars =
     \<lparr> roleMetadata = Some \<lparr> RoleName = ''fn-role'', Arn = ''arn:aws:iam::123:role/fn-role'' \<rparr>,
       s3Key = Some ''fn.zip'', packageArchive = Some ''/tmp/x1.zip'',
       functionDesc = None, customEnvVars = None, functionName = Some ''fn'',
       workingDir = Some ''/tmp/x1'', ownerAccount = Some ''123'', awsPartition = Some ''aws'',
       packageFileDir = Some ''/tmp/x1/pkg'' \<rparr>"

text \<open>The effects of the example up to the first createFunction request.\<close>

definition example_prefix :: "event list" where
  "example_prefix =
     [InitEnvVarsFromOptions, ReadJson ''/proj/package.json'',
      GetOwnerInfo (Some ''us-east-1''), Mkdtemp ''/tmp/'',
      CollectFiles ''/proj'' (Some ''/tmp/x1''),
      ValidatePackage ''/tmp/x1/pkg'', CleanUpPackage ''/tmp/x1/pkg'',
      Zipdir ''/tmp/x1/pkg'',
      Sent (IamCreateRole ''fn-role'' LambdaExecutorPolicy),
      Sent (IamPutRolePolicy ''fn-role'' ''log-writer'' (LoggingPolicy (Some ''aws''))),
      LambadCode (Some ''/tmp/x1.zip'') (Some ''uploads'') None None]"

definition example_result :: deployment where
  "example_result =
     \<lparr> d_lambda = \<lparr> ls_role = ''fn-role'', ls_name = ''fn'',
                      ls_region = Some ''us-east-1'', ls_sharedRole = None \<rparr>,
       d_api = None, d_s3key = Some ''fn.zip'', d_archive = None \<rparr>"

text \<open>The same deployment against a provider that refuses to create the function.\<close>

definition denying_env :: env where
  "denying_env =
     example_env\<lparr>e_createFunction := (\<lambda>k p. Inl (AwsError ''AccessDeniedException''))\<rparr>"

text \<open>The example once packaging, role and code reference are done.\<close>

definition example_code :: function_code where
  "example_code = \<lparr> fc_ZipFile = None, fc_S3Bucket = Some ''uploads'', fc_S3Key = Some ''fn.zip'' \<rparr>"

definition example_packaged :: "create_vars world" where
  "example_packaged = \<lparr> trace = example_prefix, aliases = Map.empty, vars = example_vars \<rparr>"

text \<open>
  A world in which the function already has an alias \<open>latest\<close>, a metadata object with
  a gateway, and the response of the example's createFunction.
\<close>

definition example_ready :: "create_vars world" where
  "example_ready = \<lparr> trace = [], aliases = [(''fn'', ''latest'') \<mapsto> ''7''], vars = example_vars \<rparr>"


definition example_data :: lambda_metadata where
  "example_data =
     \<lparr> lm_config = \<lparr> FunctionName = ''fn'', FunctionArn = ''arn:aws:lambda:fn'', Version = ''1'' \<rparr>,
       lm_api = None \<rparr>"

text \<open>The example with \<open>latest\<close> itself as the requested version label.\<close>

definition latest_requested :: options where
  "latest_requested = example_options\<lparr>opt_version := Some ''latest''\<rparr>"

text \<open>
  A provider that never recognises the role, and the example limited to two attempts.
\<close>

definition unready_env :: env where
  "unready_env =
     example_env\<lparr>e_createFunction :=
        (\<lambda>k p. Inl (AwsError ''InvalidParameterValueException''))\<rparr>"

definition two_attempts :: options where
  "two_attempts = example_options\<lparr>opt_aws_retries := Some ''2''\<rparr>"

section \<open>Predicates on effects\<close>

text \<open>A promise is silent for a kind of event when running it adds no event of that kind.\<close>

definition silent :: "(event \<Rightarrow> bool) \<Rightarrow> ('v, 'a) promise \<Rightarrow> bool" where
  "silent P m = (\<forall>w. filter P (trace (snd (m w))) = filter P (trace w))"

text \<open>The two effects of cleanup.\<close>

definition is_cleanup_event :: "event \<Rightarrow> bool" where
  "is_cleanup_event ev = (case ev of RmDir _ \<Rightarrow> True | UnlinkSync _ \<Rightarrow> True | _ \<Rightarrow> False)"


text \<open>A kind of event that only file writes and removals can belong to.\<close>

definition local_only :: "(event \<Rightarrow> bool) \<Rightarrow> bool" where
  "local_only P =
     (\<forall>ev. P ev \<longrightarrow>
        (case ev of WriteFile _ _ \<Rightarrow> True | RmDir _ \<Rightarrow> True | UnlinkSync _ \<Rightarrow> True
         | _ \<Rightarrow> False))"


text \<open>
  A promise emits only events of a kind when a run of it appends events of that kind to
  the trace and changes nothing of what was there.
\<close>

definition emits :: "(event \<Rightarrow> bool) \<Rightarrow> ('v, 'a) promise \<Rightarrow> bool" where
  "emits Q m = (\<forall>w. \<exists>evs. trace (snd (m w)) = trace w @ evs \<and> list_all Q evs)"

text \<open>The events of a world that came after those of an earlier one.\<close>

definition sent_since :: "'v world \<Rightarrow> 'v world \<Rightarrow> event list" where
  "sent_since w w' = drop (length (trace w)) (trace w')"

text \<open>The alias requests among some events, each as (function name, version, label).\<close>

definition alias_requests :: "event list \<Rightarrow> (string \<times> string \<times> string) list" where
  "alias_requests t =
     concat (map (\<lambda>ev. case ev of
                          Sent (LambdaCreateAlias n v l) \<Rightarrow> [(n, v, l)]
                        | Sent (LambdaUpdateAlias n v l) \<Rightarrow> [(n, v, l)]
                        | _ \<Rightarrow> []) t)"

text \<open>The provider has no reason of its own to refuse the requests for one binding.\<close>

definition accepts_binding :: "env \<Rightarrow> string \<Rightarrow> string \<Rightarrow> string \<Rightarrow> bool" where
  "accepts_binding env n v l =
     (e_createAlias env n v l = None \<and> e_updateAlias env n v l = None)"

text \<open>
  The requests one binding takes when the provider accepts them, given the alias table
  it meets: a create request, followed by an update request when the label exists.
\<close>

definition binding_requests ::
  "(string \<times> string \<rightharpoonup> string) \<Rightarrow> string \<Rightarrow> string \<Rightarrow> string \<Rightarrow> event list" where
  "binding_requests table n v l =
     (if table (n, l) = None then [Sent (LambdaCreateAlias n v l)]
      else [Sent (LambdaCreateAlias n v l), Sent (LambdaUpdateAlias n v l)])"

text \<open>
  The two bindings markAliases asks for: \<open>latest\<close> to \<open>$LATEST\<close>, and, when a version
  label is requested, that label to the version of the createFunction response; both for
  the function of that response.
\<close>

definition binding_of_run :: "options \<Rightarrow> lambda_metadata \<Rightarrow> string \<times> string \<times> string \<Rightarrow> bool" where
  "binding_of_run options lambdaData b =
     (case b of (n, v, l) \<Rightarrow>
        n = FunctionName (lm_config lambdaData)
        \<and> ((l = ''latest'' \<and> v = ''$LATEST'')
            \<or> (truthy (opt_version options) \<and> l = render (opt_version options)
                \<and> v = Version (lm_config lambdaData))))"

section \<open>Attempts of createFunction\<close>

text \<open>
  The provider's answer to the attempt number \<open>j\<close> (from 0) that createLambda makes when
  started in the world \<open>w\<close>.
\<close>

definition attempt_outcome ::
  "env \<Rightarrow> options \<Rightarrow> create_vars world \<Rightarrow> string option \<Rightarrow> string option \<Rightarrow> function_code
     \<Rightarrow> string \<Rightarrow> nat \<Rightarrow> error + function_configuration" where
  "attempt_outcome env options w name desc functionCode roleArn j =
     e_createFunction env (create_requests (trace w) + j)
       (createFunction_params options (vars w) name desc functionCode roleArn)"

text \<open>The world after one createFunction request.\<close>

definition after_attempt ::
  "options \<Rightarrow> create_vars world \<Rightarrow> string option \<Rightarrow> string option \<Rightarrow> function_code
     \<Rightarrow> string \<Rightarrow> create_vars world" where
  "after_attempt options w name desc functionCode roleArn =
     w\<lparr>trace := trace w @
          [Sent (LambdaCreateFunction
                   (createFunction_params options (vars w) name desc functionCode roleArn))]\<rparr>"

text \<open>An answer that is an error with the code of a role not yet recognised.\<close>

definition retryable_outcome :: "error + function_configuration \<Rightarrow> bool" where
  "retryable_outcome r =
     (case r of
        Inl e \<Rightarrow> error_code e = Some ''InvalidParameterValueException''
      | Inr response \<Rightarrow> False)"

text \<open>
  How an answer leaves createLambda: unchanged (a response as the metadata object), or,
  at the cap, as the retry engine of the spec rejects.
\<close>

definition passed_on :: "error + function_configuration \<Rightarrow> error + lambda_metadata" where
  "passed_on r =
     (case r of Inl e \<Rightarrow> Inl e | Inr response \<Rightarrow> Inr \<lparr> lm_config = response, lm_api = None \<rparr>)"

definition exhausted :: "error + function_configuration \<Rightarrow> error + lambda_metadata" where
  "exhausted r =
     (case r of
        Inl e \<Rightarrow> Inl (RetryExhausted e)
      | Inr response \<Rightarrow> Inr \<lparr> lm_config = response, lm_api = None \<rparr>)"

section \<open>Retry settings\<close>

lemma parseInt10_zero: "parseInt10 ''0'' = Some 0"
  by (simp add: parseInt10_def parse_digits_def is_space_def is_digit_def digits_val_def
      digit_val_def)

lemma truthy_parse_unusable: "unusable s \<Longrightarrow> truthy_parse s = None"
  by (auto simp: unusable_def truthy_parse_def parseInt10_zero split: option.splits)

lemma truthy_parse_nonzero: "truthy_parse s = Some n \<Longrightarrow> n \<noteq> 0"
  by (auto simp: truthy_parse_def split: option.splits if_splits)

text \<open>
  C10. When the aws-delay option and the AWS_DELAY environment variable are each
  absent, the string \<open>0\<close> or not parseable as a number, the delay between attempts is
  5000 milliseconds; when the aws-retries option is absent, \<open>0\<close> or not parseable, the
  attempt cap is 5. (An unusable option alone leaves the delay to the environment
  variable, which is read second.) Whatever the options are, neither the delay nor the
  cap is zero.
\<close>

theorem retry_settings_defaults:
  "(unusable (opt_aws_delay options) \<and> unusable env_AWS_DELAY
      \<longrightarrow> awsDelay options env_AWS_DELAY = 5000)
   \<and> (unusable (opt_aws_delay options)
      \<longrightarrow> awsDelay options env_AWS_DELAY =
            (case truthy_parse env_AWS_DELAY of Some n \<Rightarrow> n | None \<Rightarrow> 5000))
   \<and> (unusable (opt_aws_retries options) \<longrightarrow> awsRetries options = 5)
   \<and> awsDelay options env_AWS_DELAY \<noteq> 0
   \<and> awsRetries options \<noteq> 0"
  by (auto simp: awsDelay_def awsRetries_def truthy_parse_unusable
      dest: truthy_parse_nonzero split: option.splits)

theorem retry_settings_defaults_witness:
  "unusable (opt_aws_delay (example_options\<lparr>opt_aws_delay := Some ''0''\<rparr>))
   \<and> unusable (Some ''soon'')
   \<and> awsDelay (example_options\<lparr>opt_aws_delay := Some ''0''\<rparr>) (Some ''soon'') = 5000
   \<and> unusable (opt_aws_retries (example_options\<lparr>opt_aws_delay := Some ''0''\<rparr>))
   \<and> awsRetries (example_options\<lparr>opt_aws_delay := Some ''0''\<rparr>) = 5"
proof -
  let ?o = "example_options\<lparr>opt_aws_delay := Some ''0''\<rparr>"
  have a: "unusable (opt_aws_delay ?o)"
    by (simp add: unusable_def)
  have b: "unusable (Some ''soon'')"
    by (simp add: unusable_def parseInt10_def parse_digits_def is_space_def is_digit_def)
  have c: "unusable (opt_aws_retries ?o)"
    by (simp add: unusable_def example_options_def)
  from retry_settings_defaults [of ?o "Some ''soon''"] a b c show ?thesis
    by blast
qed

section \<open>The S3 event source command: merge, filter, order of calls\<close>

lemma merged_rules:
  "LambdaFunctionConfigurations (merged currentConfig rule) =
     Some (existing_rules currentConfig @ [rule])"
  by (simp add: merged_def existing_rules_def Let_def split: option.splits)

lemma merged_keeps_other_lists:
  "TopicConfigurations (merged (Some c) rule) = TopicConfigurations c
   \<and> QueueConfigurations (merged (Some c) rule) = QueueConfigurations c"
  by (simp add: merged_def Let_def split: option.splits)

lemma merged_absent:
  "merged None rule = \<lparr> LambdaFunctionConfigurations = Some [rule],
                            TopicConfigurations = None, QueueConfigurations = None \<rparr>"
  by (simp add: merged_def Let_def)

lemma addBucketNotificationConfig_trace:
  assumes "lambdaConfig (vars w) = Some lc"
    and "s3e_getBucketNotificationConfiguration env (render (s3_bucket options)) = Inr currentConfig"
  shows "trace (snd (addBucketNotificationConfig env options w)) =
           trace w @ [Sent (S3GetBucketNotificationConfiguration (render (s3_bucket options))),
                      Sent (S3PutBucketNotificationConfiguration (render (s3_bucket options))
                              (merged currentConfig (eventConfig options lc)))]"
  using assms
  by (simp add: addBucketNotificationConfig_def read_vars_def and_then_def promise_def
      perform_def)

text \<open>
  C3. The merge gives the fetched configuration with the new rule appended to its
  Lambda-function subscription list, the earlier entries unchanged and in their order
  and the other lists of the configuration untouched; for an absent configuration (or
  an absent list) the subscription list is the singleton of the new rule. This merged
  configuration is what the command writes back after a successful fetch.
\<close>

theorem merge_appends_new_rule:
  "LambdaFunctionConfigurations (merged currentConfig rule) =
     Some (existing_rules currentConfig @ [rule])
   \<and> TopicConfigurations (merged (Some c) rule) = TopicConfigurations c
   \<and> QueueConfigurations (merged (Some c) rule) = QueueConfigurations c
   \<and> merged None rule = \<lparr> LambdaFunctionConfigurations = Some [rule],
                              TopicConfigurations = None, QueueConfigurations = None \<rparr>
   \<and> (lambdaConfig (vars w) = Some lc
        \<and> s3e_getBucketNotificationConfiguration env (render (s3_bucket options)) = Inr currentConfig
      \<longrightarrow> trace (snd (addBucketNotificationConfig env options w)) =
            trace w @ [Sent (S3GetBucketNotificationConfiguration (render (s3_bucket options))),
                       Sent (S3PutBucketNotificationConfiguration (render (s3_bucket options))
                               (merged currentConfig (eventConfig options lc)))])"
  using merged_rules [of currentConfig rule] merged_keeps_other_lists [of c rule]
    merged_absent [of rule] addBucketNotificationConfig_trace [of w lc env options currentConfig]
  by blast

theorem merge_appends_new_rule_witness:
  "lambdaConfig (vars s3_ready) = Some example_lambda_config
   \<and> s3e_getBucketNotificationConfiguration example_s3_env (render (s3_bucket example_s3_options)) =
       Inr (Some \<lparr> LambdaFunctionConfigurations = Some [example_rule],
                    TopicConfigurations = Some [''topic''], QueueConfigurations = None \<rparr>)
   \<and> trace (snd (addBucketNotificationConfig example_s3_env example_s3_options s3_ready)) =
       [Sent (S3GetBucketNotificationConfiguration ''pics''),
        Sent (S3PutBucketNotificationConfiguration ''pics''
          \<lparr> LambdaFunctionConfigurations =
              Some [example_rule,
                    \<lparr> ec_Id = None, ec_LambdaFunctionArn = Some ''arn:aws:lambda:fn'',
                      ec_Events = [''s3:ObjectCreated:*''],
                      ec_Filter = Some [\<lparr> fr_Name = ''prefix'', fr_Value = ''in/'' \<rparr>] \<rparr>],
            TopicConfigurations = Some [''topic''], QueueConfigurations = None \<rparr>)]"
proof -
  let ?cur = "Some \<lparr> LambdaFunctionConfigurations = Some [example_rule],
                     TopicConfigurations = Some [''topic''], QueueConfigurations = None \<rparr>"
  have a: "lambdaConfig (vars s3_ready) = Some example_lambda_config"
    by (simp add: s3_ready_def)
  have b: "s3e_getBucketNotificationConfiguration example_s3_env
             (render (s3_bucket example_s3_options)) = Inr ?cur"
    by (simp add: example_s3_env_def)
  have c: "merged ?cur (eventConfig example_s3_options example_lambda_config) =
             \<lparr> LambdaFunctionConfigurations =
                 Some [example_rule,
                       \<lparr> ec_Id = None, ec_LambdaFunctionArn = Some ''arn:aws:lambda:fn'',
                         ec_Events = [''s3:ObjectCreated:*''],
                         ec_Filter = Some [\<lparr> fr_Name = ''prefix'', fr_Value = ''in/'' \<rparr>] \<rparr>],
               TopicConfigurations = Some [''topic''], QueueConfigurations = None \<rparr>"
    by (simp add: merged_def eventConfig_def filterRules_def example_s3_options_def
        example_lambda_config_def truthy_def render_def Let_def)
  have d: "render (s3_bucket example_s3_options) = ''pics''"
    by (simp add: example_s3_options_def render_def)
  have e: "trace s3_ready = []"
    by (simp add: s3_ready_def)
  from merge_appends_new_rule
         [of ?cur _ _ s3_ready example_lambda_config example_s3_env example_s3_options] a b
  have "trace (snd (addBucketNotificationConfig example_s3_env example_s3_options s3_ready)) =
          trace s3_ready @
            [Sent (S3GetBucketNotificationConfiguration (render (s3_bucket example_s3_options))),
             Sent (S3PutBucketNotificationConfiguration (render (s3_bucket example_s3_options))
                     (merged ?cur (eventConfig example_s3_options example_lambda_config)))]"
    by blast
  with a b c d e show ?thesis
    by simp
qed

text \<open>
  C7. The new rule has a Filter exactly when the prefix or the suffix option is
  supplied (a non-empty string); the Filter is never an empty list of rules; and its
  rules are one \<open>prefix\<close> rule for a supplied prefix followed by one \<open>suffix\<close> rule for
  a supplied suffix, each with the option's value, and nothing else.
\<close>

theorem filter_only_when_prefix_or_suffix:
  "(ec_Filter (eventConfig options lc) \<noteq> None) =
     (truthy (s3_prefix options) \<or> truthy (s3_suffix options))
   \<and> ec_Filter (eventConfig options lc) \<noteq> Some []
   \<and> (case ec_Filter (eventConfig options lc) of None \<Rightarrow> [] | Some rules \<Rightarrow> rules) =
       (if truthy (s3_prefix options)
        then [\<lparr> fr_Name = ''prefix'', fr_Value = render (s3_prefix options) \<rparr>] else [])
       @ (if truthy (s3_suffix options)
          then [\<lparr> fr_Name = ''suffix'', fr_Value = render (s3_suffix options) \<rparr>] else [])"
  by (simp add: eventConfig_def filterRules_def Let_def)

lemma permission_request_never_sent:
  "filter is_permission_request (trace (snd (addS3EventSource env options w))) =
     filter is_permission_request (trace w)"
  by (auto simp: addS3EventSource_def readConfig_def getLambda_def addS3AccessPolicy_def
      addInvokePermission_def addBucketNotificationConfig_def and_then_def reject_def
      resolve_def read_vars_def assign_def promise_def perform_def is_permission_request_def
      Let_def
      split: sum.splits option.splits prod.splits)

text \<open>
  C8. A run of the command against a bucket, every call succeeding: the run is
  fulfilled and the notification configuration is written, but no addPermission request
  is sent at any point of the run, before or after the write.
\<close>

theorem notification_written_without_permission:
  "fst (addS3EventSource example_s3_env example_s3_options s3_start) = Inr ()
   \<and> filter is_notification_write
       (trace (snd (addS3EventSource example_s3_env example_s3_options s3_start))) \<noteq> []
   \<and> filter is_permission_request
       (trace (snd (addS3EventSource example_s3_env example_s3_options s3_start))) = []"
proof -
  have "addS3EventSource example_s3_env example_s3_options s3_start =
          (Inr (),
           \<lparr> trace =
               [LoadConfig, Sent (LambdaGetFunctionConfiguration ''fn'' None),
                Sent (IamPutRolePolicy ''fn-role'' ''s3-pics-access-1700000000000''
                        (S3AccessPolicy ''arn:aws:s3:::pics/*'')),
                Sent (S3GetBucketNotificationConfiguration ''pics''),
                Sent (S3PutBucketNotificationConfiguration ''pics''
                        (merged (Some \<lparr> LambdaFunctionConfigurations = Some [example_rule],
                                        TopicConfigurations = Some [''topic''],
                                        QueueConfigurations = None \<rparr>)
                           (eventConfig example_s3_options example_lambda_config)))],
             aliases = Map.empty,
             vars = \<lparr> lambdaConfig = Some example_lambda_config,
                      s3_awsPartition = Some ''aws'' \<rparr> \<rparr>)"
    by (simp add: addS3EventSource_def readConfig_def getLambda_def addS3AccessPolicy_def
        addInvokePermission_def addBucketNotificationConfig_def and_then_def reject_def
        resolve_def read_vars_def assign_def promise_def perform_def Let_def example_s3_env_def
        example_s3_options_def s3_start_def truthy_def render_def partition_of_def
        example_lambda_config_def)
  then show ?thesis
    by (simp add: is_notification_write_def is_permission_request_def)
qed

section \<open>Which effects the steps of create can have\<close>

lemma silent_resolve: "silent P (resolve x)"
  by (simp add: silent_def resolve_def)

lemma silent_reject: "silent P (reject e)"
  by (simp add: silent_def reject_def)

lemma silent_assign: "silent P (assign u x)"
  by (simp add: silent_def assign_def)

lemma silent_perform: "\<not> P ev \<Longrightarrow> silent P (perform ev outcome)"
  by (simp add: silent_def perform_def)

lemma silent_and_then:
  assumes "silent P m" and "\<And>x. silent P (f x)"
  shows "silent P (and_then m f)"
proof -
  have "filter P (trace (snd (and_then m f w))) = filter P (trace w)" for w
  proof (cases "m w")
    case (Pair r w')
    with assms(1) have a: "filter P (trace w') = filter P (trace w)"
      by (metis silent_def snd_conv)
    show ?thesis
    proof (cases r)
      case (Inl e)
      with Pair a show ?thesis by (simp add: and_then_def)
    next
      case (Inr x)
      from assms(2) have "filter P (trace (snd (f x w'))) = filter P (trace w')"
        by (simp add: silent_def)
      with Pair Inr a show ?thesis by (simp add: and_then_def)
    qed
  qed
  then show ?thesis by (simp add: silent_def)
qed

lemma silent_or_catch:
  assumes "silent P m" and "\<And>e. silent P (h e)"
  shows "silent P (or_catch m h)"
proof -
  have "filter P (trace (snd (or_catch m h w))) = filter P (trace w)" for w
  proof (cases "m w")
    case (Pair r w')
    with assms(1) have a: "filter P (trace w') = filter P (trace w)"
      by (metis silent_def snd_conv)
    show ?thesis
    proof (cases r)
      case (Inr x)
      with Pair a show ?thesis by (simp add: or_catch_def)
    next
      case (Inl e)
      from assms(2) have "filter P (trace (snd (h e w'))) = filter P (trace w')"
        by (simp add: silent_def)
      with Pair Inl a show ?thesis by (simp add: or_catch_def)
    qed
  qed
  then show ?thesis by (simp add: silent_def)
qed

lemma silent_read_vars: "(\<And>v. silent P (f v)) \<Longrightarrow> silent P (read_vars f)"
  by (simp add: silent_def read_vars_def)

lemma silent_read_trace: "(\<And>t. silent P (f t)) \<Longrightarrow> silent P (read_trace f)"
  by (simp add: silent_def read_trace_def)

lemma silent_promise_all: "(\<And>p. p \<in> set ps \<Longrightarrow> silent P p) \<Longrightarrow> silent P (promise_all ps)"
proof (induction ps)
  case Nil
  then show ?case by (simp add: silent_resolve)
next
  case (Cons p ps)
  have p: "silent P p" and ps: "silent P (promise_all ps)"
    using Cons by simp_all
  show ?case
    unfolding silent_def
  proof
    fix w
    obtain r w' where a: "p w = (r, w')" by (cases "p w")
    obtain rs w'' where b: "promise_all ps w' = (rs, w'')" by (cases "promise_all ps w'")
    from p a have "filter P (trace w') = filter P (trace w)"
      by (metis silent_def snd_conv)
    moreover from ps b have "filter P (trace w'') = filter P (trace w')"
      by (metis silent_def snd_conv)
    ultimately show "filter P (trace (snd (promise_all (p # ps) w))) = filter P (trace w)"
      using a b by simp
  qed
qed

lemma silent_if: "silent P a \<Longrightarrow> silent P b \<Longrightarrow> silent P (if c then a else b)"
  by simp

lemma silent_retry_loop:
  assumes "silent P operation" and "silent P onRetry" and "\<not> P (Sleep delayMs)"
  shows "silent P (retry_loop operation delayMs n isRetryable onRetry)"
proof (induction n)
  case 0
  show ?case
    unfolding retry_loop.simps
    by (intro silent_or_catch silent_if silent_reject assms(1))
next
  case (Suc n)
  show ?case
    unfolding retry_loop.simps
    by (intro silent_or_catch silent_if silent_reject silent_and_then silent_perform assms Suc)
qed

lemma silent_createAlias: "\<not> P (Sent (LambdaCreateAlias n v l)) \<Longrightarrow> silent P (createAlias env n v l)"
  by (simp add: silent_def createAlias_def Let_def split: option.splits)

lemma silent_updateAlias: "\<not> P (Sent (LambdaUpdateAlias n v l)) \<Longrightarrow> silent P (updateAlias env n v l)"
  by (simp add: silent_def updateAlias_def Let_def split: option.splits)

lemma silent_markAlias:
  "\<not> P (Sent (LambdaCreateAlias n v l)) \<Longrightarrow> \<not> P (Sent (LambdaUpdateAlias n v l))
     \<Longrightarrow> silent P (markAlias env n v l)"
  unfolding markAlias_def
  by (intro silent_or_catch silent_if silent_reject silent_createAlias silent_updateAlias)

lemma silent_perform_local:
  assumes "local_only P"
    and "case ev of WriteFile _ _ \<Rightarrow> False | RmDir _ \<Rightarrow> False | UnlinkSync _ \<Rightarrow> False | _ \<Rightarrow> True"
  shows "silent P (perform ev outcome)"
proof (rule silent_perform)
  from assms(1)
  have "P ev \<Longrightarrow> (case ev of WriteFile _ _ \<Rightarrow> True | RmDir _ \<Rightarrow> True | UnlinkSync _ \<Rightarrow> True | _ \<Rightarrow> False)"
    unfolding local_only_def by blast
  with assms(2) show "\<not> P ev"
    by (cases ev) auto
qed

lemma silent_promise_local: "local_only P \<Longrightarrow> silent P (promise request outcome)"
  unfolding promise_def by (rule silent_perform_local) simp_all

lemma silent_case_option:
  "silent P a \<Longrightarrow> (\<And>x. silent P (b x)) \<Longrightarrow> silent P (case opt of None \<Rightarrow> a | Some x \<Rightarrow> b x)"
  by (cases opt) simp_all

lemma silent_case_prod:
  "(\<And>x y. silent P (f x y)) \<Longrightarrow> silent P (case p of (x, y) \<Rightarrow> f x y)"
  by (cases p) simp

lemmas silent_intros = silent_resolve silent_reject silent_assign silent_and_then silent_or_catch
  silent_read_vars silent_read_trace silent_if silent_case_option silent_case_prod

lemma silent_getPackageInfo: "local_only P \<Longrightarrow> silent P (getPackageInfo env options)"
  unfolding getPackageInfo_def Let_def
  by (intro silent_intros silent_perform_local) simp_all

lemma silent_package_steps: "local_only P \<Longrightarrow> silent P (package_steps env options)"
  unfolding package_steps_def
  by (intro silent_intros silent_perform_local silent_getPackageInfo) simp_all

lemma silent_loadRole: "local_only P \<Longrightarrow> silent P (loadRole env options name)"
  unfolding loadRole_def
  by (intro silent_intros silent_promise_local) simp_all

lemma silent_addExtraPolicies: "local_only P \<Longrightarrow> silent P (addExtraPolicies env options)"
  unfolding addExtraPolicies_def
  by (intro silent_intros silent_promise_all) (auto intro: silent_perform_local)

lemma silent_role_steps:
  "local_only P \<Longrightarrow> silent P chain \<Longrightarrow> silent P (role_steps env options chain)"
  unfolding role_steps_def
  by (intro silent_intros silent_promise_local silent_loadRole silent_addExtraPolicies) simp_all

lemma silent_createFunction_call:
  "local_only P \<Longrightarrow> silent P (createFunction_call env options name desc functionCode roleArn)"
  unfolding createFunction_call_def
  by (intro silent_intros silent_promise_local) simp_all

lemma silent_createLambda:
  assumes "local_only P"
  shows "silent P (createLambda env options name desc functionCode roleArn)"
  unfolding createLambda_def retry_def
proof (rule silent_retry_loop)
  show "silent P (createFunction_call env options name desc functionCode roleArn)"
    using assms by (rule silent_createFunction_call)
  show "silent P (resolve ())"
    by (rule silent_resolve)
  from assms have "P (Sleep d) \<Longrightarrow> False" for d
    unfolding local_only_def by (drule_tac x = "Sleep d" in spec) simp
  then show "\<not> P (Sleep (awsDelay options (e_AWS_DELAY env)))"
    by blast
qed

lemma local_only_Sent: "local_only P \<Longrightarrow> \<not> P (Sent request)"
  unfolding local_only_def by (drule_tac x = "Sent request" in spec) simp

lemma silent_markAliases: "local_only P \<Longrightarrow> silent P (markAliases env options lambdaData)"
  unfolding markAliases_def
  by (intro silent_intros silent_markAlias local_only_Sent) simp_all

lemma silent_function_steps:
  "local_only P \<Longrightarrow> silent P chain \<Longrightarrow> silent P (function_steps env options chain)"
  unfolding function_steps_def
  by (intro silent_intros silent_perform_local silent_createLambda silent_markAliases) simp_all

lemma silent_createWebApi:
  "local_only P \<Longrightarrow> silent P (createWebApi env options lambdaMetadata packageDir)"
  unfolding createWebApi_def Let_def
  by (intro silent_intros silent_perform_local silent_promise_local) simp_all

lemma silent_saveConfig:
  assumes "\<And>path d. d_s3key d = None \<Longrightarrow> \<not> P (WriteFile path d)"
  shows "silent P (saveConfig env options lambdaMetadata)"
  unfolding saveConfig_def
  by (intro silent_intros silent_perform assms) (simp add: saved_config_def)

lemma silent_formatResult: "silent P (formatResult options lambdaMetadata)"
  unfolding formatResult_def
  by (intro silent_intros)

lemma silent_persist_steps:
  assumes "local_only P" and "\<And>path d. d_s3key d = None \<Longrightarrow> \<not> P (WriteFile path d)"
    and "silent P chain"
  shows "silent P (persist_steps env options chain)"
  unfolding persist_steps_def
  by (intro silent_intros silent_perform_local silent_createWebApi silent_saveConfig
      silent_formatResult assms) simp_all

lemma silent_provision:
  assumes "local_only P" and "\<And>path d. d_s3key d = None \<Longrightarrow> \<not> P (WriteFile path d)"
  shows "silent P (provision env options)"
  unfolding provision_def
  by (intro silent_persist_steps silent_function_steps silent_role_steps silent_package_steps
      assms)

lemma local_only_cleanup: "local_only is_cleanup_event"
  by (auto simp: local_only_def is_cleanup_event_def split: event.splits)


lemma provision_no_cleanup: "silent is_cleanup_event (provision env options)"
  by (rule silent_provision [OF local_only_cleanup]) (simp add: is_cleanup_event_def)




lemma silentD: "silent P m \<Longrightarrow> m w = (r, w') \<Longrightarrow> filter P (trace w') = filter P (trace w)"
  by (metis silent_def snd_conv)

section \<open>The example deployment, step by step\<close>

lemmas run_defs = create_def provision_def persist_steps_def function_steps_def role_steps_def
  package_steps_def validationError_def getPackageInfo_def loadRole_def addExtraPolicies_def
  createLambda_def retry_def createFunction_call_def createFunction_params_def markAliases_def
  markAlias_def createAlias_def updateAlias_def saveConfig_def saved_config_def
  lambda_section_of_def formatResult_def cleanup_def createWebApi_def configFile_def
  source_def policyFiles_def awsDelay_def awsRetries_def truthy_parse_def isRetryable_def
  create_requests_def is_create_function_def
  and_then_def or_catch_def resolve_def reject_def perform_def promise_def read_vars_def
  read_trace_def assign_def truthy_def render_def has_dot_def js_or_def Let_def

lemmas example_defs = example_env_def example_options_def create_start_def
  example_params_def example_vars_def example_prefix_def example_result_def

lemma example_valid: "validationError example_env example_options = None"
  by (simp add: run_defs example_env_def example_options_def)

lemma denying_valid: "validationError denying_env example_options = None"
  by (simp add: run_defs denying_env_def example_env_def example_options_def)

lemma example_not_kept: "\<not> opt_keep example_options"
  by (simp add: example_options_def)

lemma example_provision:
  "provision example_env example_options create_start =
     (Inr example_result,
      \<lparr> trace = example_prefix @
          [Sent (LambdaCreateFunction example_params), Sleep 5000,
           Sent (LambdaCreateFunction example_params), Sleep 5000,
           Sent (LambdaCreateFunction example_params),
           Sent (LambdaCreateAlias ''fn'' ''$LATEST'' ''latest''),
           Sent (LambdaCreateAlias ''fn'' ''1'' ''dev''),
           WriteFile ''/proj/sln.json'' (example_result\<lparr>d_s3key := None\<rparr>)],
        aliases = [(''fn'', ''latest'') \<mapsto> ''$LATEST'', (''fn'', ''dev'') \<mapsto> ''1''],
        vars = example_vars \<rparr>)"
  by (simp add: run_defs example_defs eval_nat_numeral)

lemma example_run:
  "create example_env example_options create_start =
     (Inr example_result,
      \<lparr> trace = example_prefix @
          [Sent (LambdaCreateFunction example_params), Sleep 5000,
           Sent (LambdaCreateFunction example_params), Sleep 5000,
           Sent (LambdaCreateFunction example_params),
           Sent (LambdaCreateAlias ''fn'' ''$LATEST'' ''latest''),
           Sent (LambdaCreateAlias ''fn'' ''1'' ''dev''),
           WriteFile ''/proj/sln.json'' (example_result\<lparr>d_s3key := None\<rparr>),
           RmDir (Some ''/tmp/x1''), UnlinkSync (Some ''/tmp/x1.zip'')],
        aliases = [(''fn'', ''latest'') \<mapsto> ''$LATEST'', (''fn'', ''dev'') \<mapsto> ''1''],
        vars = example_vars \<rparr>)"
  by (simp add: run_defs example_defs eval_nat_numeral)

lemma denied_provision:
  "provision denying_env example_options create_start =
     (Inl (AwsError ''AccessDeniedException''),
      \<lparr> trace = example_prefix @ [Sent (LambdaCreateFunction example_params)],
        aliases = Map.empty,
        vars = example_vars \<rparr>)"
  by (simp add: run_defs denying_env_def example_defs eval_nat_numeral)

lemma denied_run:
  "create denying_env example_options create_start =
     (Inl (AwsError ''AccessDeniedException''),
      \<lparr> trace = example_prefix @ [Sent (LambdaCreateFunction example_params)],
        aliases = Map.empty,
        vars = example_vars \<rparr>)"
  by (simp add: run_defs denying_env_def example_defs eval_nat_numeral)

section \<open>Validation\<close>

text \<open>
  C4. When the handler option and the api-module option are both supplied (non-empty
  strings), create is rejected with a validation message (the one for the two options,
  or the one for a missing region, which is checked first) and the world is as it was:
  no request was sent, no directory or file was made, no variable set.
\<close>

theorem handler_with_api_module_rejected:
  "truthy (opt_handler options) \<and> truthy (opt_api_module options) \<longrightarrow>
     create env options w =
       (Inl (Message (if truthy (opt_region options) then HandlerWithApiModule
                      else RegionUndefined)), w)"
  by (simp add: create_def validationError_def reject_def)

theorem handler_with_api_module_rejected_witness:
  "truthy (opt_handler (example_options\<lparr>opt_api_module := Some ''web''\<rparr>))
   \<and> truthy (opt_api_module (example_options\<lparr>opt_api_module := Some ''web''\<rparr>))
   \<and> create example_env (example_options\<lparr>opt_api_module := Some ''web''\<rparr>) create_start =
       (Inl (Message HandlerWithApiModule), create_start)"
proof -
  let ?o = "example_options\<lparr>opt_api_module := Some ''web''\<rparr>"
  have a: "truthy (opt_handler ?o)" and b: "truthy (opt_api_module ?o)" and c: "truthy (opt_region ?o)"
    by (simp_all add: truthy_def example_options_def)
  from handler_with_api_module_rejected [of ?o example_env create_start] a b c
  show ?thesis by simp
qed

section \<open>Cleanup\<close>

lemma cleanup_kept:
  "opt_keep options \<Longrightarrow>
     cleanup env options result w = (Inr (result\<lparr>d_archive := packageArchive (vars w)\<rparr>), w)"
  by (simp add: cleanup_def read_vars_def resolve_def)

lemma cleanup_removes:
  "\<not> opt_keep options \<Longrightarrow>
     trace (snd (cleanup env options result w)) =
       trace w @ RmDir (workingDir (vars w))
         # (case e_rmDir env (workingDir (vars w)) of
              Inl e \<Rightarrow> []
            | Inr u \<Rightarrow> [UnlinkSync (packageArchive (vars w))])"
  by (simp add: cleanup_def read_vars_def resolve_def and_then_def perform_def
      split: sum.splits)

text \<open>
  C1, as the code has it. For an invocation that passes validation, the steps before
  cleanup remove nothing. When one of them fails, create is rejected with that error in
  the world that step left: cleanup has not run, the staging directory and the archive
  stay. When all succeed, create continues with cleanup, which either (retention
  requested) only reports the archive in the result, or removes the staging directory
  and then, unless that removal failed, the archive.
\<close>

theorem cleanup_only_after_success:
  "validationError env options = None \<longrightarrow>
     filter is_cleanup_event (trace (snd (provision env options w))) =
       filter is_cleanup_event (trace w)
     \<and> (\<forall>e. fst (provision env options w) = Inl e \<longrightarrow>
            create env options w = (Inl e, snd (provision env options w)))
     \<and> (\<forall>result. fst (provision env options w) = Inr result \<longrightarrow>
            create env options w = cleanup env options result (snd (provision env options w)))
     \<and> (opt_keep options \<longrightarrow>
            cleanup env options result w' =
              (Inr (result\<lparr>d_archive := packageArchive (vars w')\<rparr>), w'))
     \<and> (\<not> opt_keep options \<longrightarrow>
            trace (snd (cleanup env options result w')) =
              trace w' @ RmDir (workingDir (vars w'))
                # (case e_rmDir env (workingDir (vars w')) of
                     Inl e \<Rightarrow> []
                   | Inr u \<Rightarrow> [UnlinkSync (packageArchive (vars w'))]))"
proof
  assume valid: "validationError env options = None"
  obtain r v where run: "provision env options w = (r, v)"
    by (cases "provision env options w")
  have quiet: "filter is_cleanup_event (trace v) = filter is_cleanup_event (trace w)"
    using provision_no_cleanup run by (rule silentD)
  have failure: "create env options w = (Inl e, v)" if "r = Inl e" for e
    using that valid run by (simp add: create_def and_then_def)
  have success: "create env options w = cleanup env options x v" if "r = Inr x" for x
    using that valid run by (simp add: create_def and_then_def)
  from run quiet failure success cleanup_kept [of options env result w']
    cleanup_removes [of options env result w']
  show "filter is_cleanup_event (trace (snd (provision env options w))) =
       filter is_cleanup_event (trace w)
     \<and> (\<forall>e. fst (provision env options w) = Inl e \<longrightarrow>
            create env options w = (Inl e, snd (provision env options w)))
     \<and> (\<forall>result. fst (provision env options w) = Inr result \<longrightarrow>
            create env options w = cleanup env options result (snd (provision env options w)))
     \<and> (opt_keep options \<longrightarrow>
            cleanup env options result w' =
              (Inr (result\<lparr>d_archive := packageArchive (vars w')\<rparr>), w'))
     \<and> (\<not> opt_keep options \<longrightarrow>
            trace (snd (cleanup env options result w')) =
              trace w' @ RmDir (workingDir (vars w'))
                # (case e_rmDir env (workingDir (vars w')) of
                     Inl e \<Rightarrow> []
                   | Inr u \<Rightarrow> [UnlinkSync (packageArchive (vars w'))]))"
    by simp
qed

theorem cleanup_only_after_success_witness:
  "validationError denying_env example_options = None
   \<and> fst (provision denying_env example_options create_start) =
       Inl (AwsError ''AccessDeniedException'')
   \<and> create denying_env example_options create_start =
       (Inl (AwsError ''AccessDeniedException''),
        snd (provision denying_env example_options create_start))
   \<and> filter is_cleanup_event
       (trace (snd (provision denying_env example_options create_start))) = []
   \<and> validationError example_env example_options = None
   \<and> fst (provision example_env example_options create_start) = Inr example_result
   \<and> \<not> opt_keep example_options
   \<and> trace (snd (create example_env example_options create_start)) =
       trace (snd (provision example_env example_options create_start))
         @ [RmDir (Some ''/tmp/x1''), UnlinkSync (Some ''/tmp/x1.zip'')]"
proof -
  let ?w = "snd (provision example_env example_options create_start)"
  have a: "fst (provision denying_env example_options create_start) =
             Inl (AwsError ''AccessDeniedException'')"
    by (simp add: denied_provision)
  have b: "filter is_cleanup_event (trace create_start) = []"
    by (simp add: create_start_def)
  from cleanup_only_after_success [of denying_env example_options create_start] denying_valid a b
  have failing: "create denying_env example_options create_start =
       (Inl (AwsError ''AccessDeniedException''),
        snd (provision denying_env example_options create_start))
     \<and> filter is_cleanup_event
         (trace (snd (provision denying_env example_options create_start))) = []"
    by simp
  have c: "fst (provision example_env example_options create_start) = Inr example_result"
    by (simp add: example_provision)
  have d: "workingDir (vars ?w) = Some ''/tmp/x1''"
    and e: "packageArchive (vars ?w) = Some ''/tmp/x1.zip''"
    by (simp_all add: example_provision example_vars_def)
  have f: "e_rmDir example_env (Some ''/tmp/x1'') = Inr ()"
    by (simp add: example_env_def)
  from cleanup_only_after_success
         [of example_env example_options create_start example_result ?w]
       example_valid c example_not_kept
  have "create example_env example_options create_start =
          cleanup example_env example_options example_result ?w"
    and "trace (snd (cleanup example_env example_options example_result ?w)) =
           trace ?w @ RmDir (workingDir (vars ?w))
             # (case e_rmDir example_env (workingDir (vars ?w)) of
                  Inl e \<Rightarrow> []
                | Inr u \<Rightarrow> [UnlinkSync (packageArchive (vars ?w))])"
    by simp_all
  with d e f have succeeding: "trace (snd (create example_env example_options create_start)) =
       trace ?w @ [RmDir (Some ''/tmp/x1''), UnlinkSync (Some ''/tmp/x1.zip'')]"
    by simp
  from failing succeeding a c denying_valid example_valid example_not_kept show ?thesis
    by simp
qed

text \<open>
  The claim as stated fails: with a provider that refuses createFunction, validation
  passes, retention is not requested, the staging directory and the archive have been
  made, create is rejected, and neither removal has happened.
\<close>

theorem cleanup_skipped_on_failure:
  "validationError denying_env example_options = None
   \<and> \<not> opt_keep example_options
   \<and> fst (create denying_env example_options create_start) = Inl (AwsError ''AccessDeniedException'')
   \<and> Mkdtemp ''/tmp/'' \<in> set (trace (snd (create denying_env example_options create_start)))
   \<and> Zipdir ''/tmp/x1/pkg'' \<in> set (trace (snd (create denying_env example_options create_start)))
   \<and> filter is_cleanup_event (trace (snd (create denying_env example_options create_start))) = []"
  by (simp add: denied_run denying_valid example_prefix_def is_cleanup_event_def example_not_kept)

section \<open>The persisted descriptor\<close>






section \<open>Alias bindings\<close>

lemma function_steps_split:
  "function_steps env options chain =
     and_then (creation_steps env options chain) (markAliases env options)"
  by (simp add: function_steps_def creation_steps_def)

lemma function_steps_after_creation:
  "(\<forall>e. fst (creation_steps env options chain w) = Inl e \<longrightarrow>
        function_steps env options chain w = (Inl e, snd (creation_steps env options chain w)))
   \<and> (\<forall>lambdaData. fst (creation_steps env options chain w) = Inr lambdaData \<longrightarrow>
        function_steps env options chain w =
          markAliases env options lambdaData (snd (creation_steps env options chain w)))"
  by (cases "creation_steps env options chain w")
     (simp add: function_steps_split and_then_def)

lemma markAlias_requests:
  assumes "accepts_binding env n v l"
  shows "markAlias env n v l w =
           (Inr (), w\<lparr>trace := trace w @ binding_requests (aliases w) n v l,
                      aliases := (aliases w)((n, l) \<mapsto> v)\<rparr>)"
  using assms
  by (cases "aliases w (n, l)")
     (simp_all add: accepts_binding_def markAlias_def createAlias_def updateAlias_def
        or_catch_def reject_def Let_def binding_requests_def)

lemma markAliases_run:
  assumes "accepts_binding env (FunctionName (lm_config lambdaData)) ''$LATEST'' ''latest''"
    and "truthy (opt_version options) \<Longrightarrow>
           accepts_binding env (FunctionName (lm_config lambdaData))
             (Version (lm_config lambdaData)) (render (opt_version options))"
  shows "markAliases env options lambdaData w =
           (Inr lambdaData,
            w\<lparr>trace := trace w
                  @ binding_requests (aliases w) (FunctionName (lm_config lambdaData))
                      ''$LATEST'' ''latest''
                  @ (if truthy (opt_version options)
                     then binding_requests
                            ((aliases w)((FunctionName (lm_config lambdaData), ''latest'')
                                           \<mapsto> ''$LATEST''))
                            (FunctionName (lm_config lambdaData))
                            (Version (lm_config lambdaData)) (render (opt_version options))
                     else []),
               aliases :=
                 (if truthy (opt_version options)
                  then (aliases w)
                         ((FunctionName (lm_config lambdaData), ''latest'') \<mapsto> ''$LATEST'',
                          (FunctionName (lm_config lambdaData), render (opt_version options))
                             \<mapsto> Version (lm_config lambdaData))
                  else (aliases w)
                         ((FunctionName (lm_config lambdaData), ''latest'') \<mapsto> ''$LATEST''))\<rparr>)"
proof (cases "truthy (opt_version options)")
  case False
  then show ?thesis
    by (simp add: markAliases_def and_then_def resolve_def markAlias_requests [OF assms(1)])
next
  case True
  then show ?thesis
    by (simp add: markAliases_def and_then_def resolve_def markAlias_requests [OF assms(1)]
        markAlias_requests [OF assms(2) [OF True]])
qed

text \<open>
  C5. In the pipeline, a failed function creation ends the stretch without any
  binding, and a successful one is followed by markAliases on the metadata of that very
  creation. One binding that the provider accepts is an upsert: the label then points
  at the version, whether it existed or not, and no other label changes. When the
  provider accepts the bindings, markAliases is fulfilled with the metadata it was
  given after making, in this order, the binding of \<open>latest\<close> to \<open>$LATEST\<close> and,
  exactly when a version label was requested, the binding of that label to the version
  of the createFunction response, and no other request. The alias table ends as the old
  one with these bindings applied in that order: \<open>latest\<close> ends at \<open>$LATEST\<close>, except
  when the requested label is \<open>latest\<close> itself, which the second binding then repoints
  to the published version.
\<close>

theorem markAliases_binds:
  "(\<forall>e. fst (creation_steps env options chain w0) = Inl e \<longrightarrow>
        function_steps env options chain w0 = (Inl e, snd (creation_steps env options chain w0)))
   \<and> (\<forall>created. fst (creation_steps env options chain w0) = Inr created \<longrightarrow>
        function_steps env options chain w0 =
          markAliases env options created (snd (creation_steps env options chain w0)))
   \<and> (accepts_binding env n v l \<longrightarrow>
        fst (markAlias env n v l w) = Inr ()
        \<and> aliases (snd (markAlias env n v l w)) = (aliases w)((n, l) \<mapsto> v))
   \<and> (accepts_binding env (FunctionName (lm_config lambdaData)) ''$LATEST'' ''latest''
        \<and> (truthy (opt_version options) \<longrightarrow>
             accepts_binding env (FunctionName (lm_config lambdaData))
               (Version (lm_config lambdaData)) (render (opt_version options))) \<longrightarrow>
        fst (markAliases env options lambdaData w) = Inr lambdaData
        \<and> sent_since w (snd (markAliases env options lambdaData w)) =
            binding_requests (aliases w) (FunctionName (lm_config lambdaData))
              ''$LATEST'' ''latest''
            @ (if truthy (opt_version options)
               then binding_requests
                      ((aliases w)((FunctionName (lm_config lambdaData), ''latest'')
                                     \<mapsto> ''$LATEST''))
                      (FunctionName (lm_config lambdaData))
                      (Version (lm_config lambdaData)) (render (opt_version options))
               else [])
        \<and> aliases (snd (markAliases env options lambdaData w)) =
            (if truthy (opt_version options)
             then (aliases w)
                    ((FunctionName (lm_config lambdaData), ''latest'') \<mapsto> ''$LATEST'',
                     (FunctionName (lm_config lambdaData), render (opt_version options))
                        \<mapsto> Version (lm_config lambdaData))
             else (aliases w)
                    ((FunctionName (lm_config lambdaData), ''latest'') \<mapsto> ''$LATEST''))
        \<and> aliases (snd (markAliases env options lambdaData w))
              (FunctionName (lm_config lambdaData), ''latest'') =
            Some (if truthy (opt_version options) \<and> render (opt_version options) = ''latest''
                  then Version (lm_config lambdaData) else ''$LATEST''))"
proof (intro conjI)
  show "\<forall>e. fst (creation_steps env options chain w0) = Inl e \<longrightarrow>
        function_steps env options chain w0 = (Inl e, snd (creation_steps env options chain w0))"
    using function_steps_after_creation by blast
  show "\<forall>created. fst (creation_steps env options chain w0) = Inr created \<longrightarrow>
        function_steps env options chain w0 =
          markAliases env options created (snd (creation_steps env options chain w0))"
    using function_steps_after_creation by blast
  show "accepts_binding env n v l \<longrightarrow>
        fst (markAlias env n v l w) = Inr ()
        \<and> aliases (snd (markAlias env n v l w)) = (aliases w)((n, l) \<mapsto> v)"
    by (simp add: markAlias_requests)
  show "accepts_binding env (FunctionName (lm_config lambdaData)) ''$LATEST'' ''latest''
        \<and> (truthy (opt_version options) \<longrightarrow>
             accepts_binding env (FunctionName (lm_config lambdaData))
               (Version (lm_config lambdaData)) (render (opt_version options))) \<longrightarrow>
        fst (markAliases env options lambdaData w) = Inr lambdaData
        \<and> sent_since w (snd (markAliases env options lambdaData w)) =
            binding_requests (aliases w) (FunctionName (lm_config lambdaData))
              ''$LATEST'' ''latest''
            @ (if truthy (opt_version options)
               then binding_requests
                      ((aliases w)((FunctionName (lm_config lambdaData), ''latest'')
                                     \<mapsto> ''$LATEST''))
                      (FunctionName (lm_config lambdaData))
                      (Version (lm_config lambdaData)) (render (opt_version options))
               else [])
        \<and> aliases (snd (markAliases env options lambdaData w)) =
            (if truthy (opt_version options)
             then (aliases w)
                    ((FunctionName (lm_config lambdaData), ''latest'') \<mapsto> ''$LATEST'',
                     (FunctionName (lm_config lambdaData), render (opt_version options))
                        \<mapsto> Version (lm_config lambdaData))
             else (aliases w)
                    ((FunctionName (lm_config lambdaData), ''latest'') \<mapsto> ''$LATEST''))
        \<and> aliases (snd (markAliases env options lambdaData w))
              (FunctionName (lm_config lambdaData), ''latest'') =
            Some (if truthy (opt_version options) \<and> render (opt_version options) = ''latest''
                  then Version (lm_config lambdaData) else ''$LATEST'')"
  proof
    assume "accepts_binding env (FunctionName (lm_config lambdaData)) ''$LATEST'' ''latest''
        \<and> (truthy (opt_version options) \<longrightarrow>
             accepts_binding env (FunctionName (lm_config lambdaData))
               (Version (lm_config lambdaData)) (render (opt_version options)))"
    then have ok: "accepts_binding env (FunctionName (lm_config lambdaData)) ''$LATEST'' ''latest''"
      and ok': "truthy (opt_version options) \<Longrightarrow>
             accepts_binding env (FunctionName (lm_config lambdaData))
               (Version (lm_config lambdaData)) (render (opt_version options))"
      by simp_all
    show "fst (markAliases env options lambdaData w) = Inr lambdaData
        \<and> sent_since w (snd (markAliases env options lambdaData w)) =
            binding_requests (aliases w) (FunctionName (lm_config lambdaData))
              ''$LATEST'' ''latest''
            @ (if truthy (opt_version options)
               then binding_requests
                      ((aliases w)((FunctionName (lm_config lambdaData), ''latest'')
                                     \<mapsto> ''$LATEST''))
                      (FunctionName (lm_config lambdaData))
                      (Version (lm_config lambdaData)) (render (opt_version options))
               else [])
        \<and> aliases (snd (markAliases env options lambdaData w)) =
            (if truthy (opt_version options)
             then (aliases w)
                    ((FunctionName (lm_config lambdaData), ''latest'') \<mapsto> ''$LATEST'',
                     (FunctionName (lm_config lambdaData), render (opt_version options))
                        \<mapsto> Version (lm_config lambdaData))
             else (aliases w)
                    ((FunctionName (lm_config lambdaData), ''latest'') \<mapsto> ''$LATEST''))
        \<and> aliases (snd (markAliases env options lambdaData w))
              (FunctionName (lm_config lambdaData), ''latest'') =
            Some (if truthy (opt_version options) \<and> render (opt_version options) = ''latest''
                  then Version (lm_config lambdaData) else ''$LATEST'')"
      by (simp add: markAliases_run [OF ok ok'] sent_since_def)
  qed
qed

lemma example_creation:
  "creation_steps example_env example_options
     (role_steps example_env example_options (package_steps example_env example_options))
     create_start =
     (Inr example_data,
      \<lparr> trace = example_prefix @
          [Sent (LambdaCreateFunction example_params), Sleep 5000,
           Sent (LambdaCreateFunction example_params), Sleep 5000,
           Sent (LambdaCreateFunction example_params)],
        aliases = Map.empty,
        vars = example_vars \<rparr>)"
  by (simp add: run_defs creation_steps_def example_defs example_data_def eval_nat_numeral)

theorem markAliases_binds_witness:
  "fst (creation_steps example_env example_options
          (role_steps example_env example_options (package_steps example_env example_options))
          create_start) = Inr example_data
   \<and> Version (lm_config example_data) = ''1''
   \<and> function_steps example_env example_options
         (role_steps example_env example_options (package_steps example_env example_options))
         create_start =
       markAliases example_env example_options example_data
         (snd (creation_steps example_env example_options
                 (role_steps example_env example_options (package_steps example_env example_options))
                 create_start))
   \<and> accepts_binding example_env ''fn'' ''$LATEST'' ''latest''
   \<and> truthy (opt_version example_options)
   \<and> accepts_binding example_env ''fn'' ''1'' ''dev''
   \<and> sent_since
         (snd (creation_steps example_env example_options
                 (role_steps example_env example_options (package_steps example_env example_options))
                 create_start))
         (snd (function_steps example_env example_options
                 (role_steps example_env example_options (package_steps example_env example_options))
                 create_start)) =
       [Sent (LambdaCreateAlias ''fn'' ''$LATEST'' ''latest''),
        Sent (LambdaCreateAlias ''fn'' ''1'' ''dev'')]
   \<and> aliases (snd (function_steps example_env example_options
                 (role_steps example_env example_options (package_steps example_env example_options))
                 create_start)) (''fn'', ''latest'') = Some ''$LATEST''
   \<and> aliases (snd (function_steps example_env example_options
                 (role_steps example_env example_options (package_steps example_env example_options))
                 create_start)) (''fn'', ''dev'') = Some ''1''
   \<and> aliases example_ready (''fn'', ''latest'') = Some ''7''
   \<and> truthy (opt_version latest_requested)
   \<and> accepts_binding example_env ''fn'' ''1'' ''latest''
   \<and> sent_since example_ready
         (snd (markAliases example_env latest_requested example_data example_ready)) =
       [Sent (LambdaCreateAlias ''fn'' ''$LATEST'' ''latest''),
        Sent (LambdaUpdateAlias ''fn'' ''$LATEST'' ''latest''),
        Sent (LambdaCreateAlias ''fn'' ''1'' ''latest''),
        Sent (LambdaUpdateAlias ''fn'' ''1'' ''latest'')]
   \<and> aliases (snd (markAliases example_env latest_requested example_data example_ready))
         (''fn'', ''latest'') = Some ''1''"
proof -
  let ?chain = "role_steps example_env example_options (package_steps example_env example_options)"
  let ?w = "snd (creation_steps example_env example_options ?chain create_start)"
  have created: "fst (creation_steps example_env example_options ?chain create_start) =
                   Inr example_data"
    by (simp add: example_creation)
  have table: "aliases ?w = Map.empty"
    by (simp add: example_creation)
  have a: "truthy (opt_version example_options)" "render (opt_version example_options) = ''dev''"
    by (simp_all add: example_options_def truthy_def render_def)
  have a': "truthy (opt_version latest_requested)"
    "render (opt_version latest_requested) = ''latest''"
    by (simp_all add: latest_requested_def truthy_def render_def)
  have b: "FunctionName (lm_config example_data) = ''fn''" "Version (lm_config example_data) = ''1''"
    by (simp_all add: example_data_def)
  have c: "aliases example_ready (''fn'', ''latest'') = Some ''7''"
    by (simp add: example_ready_def)
  have ok: "accepts_binding example_env n v l" for n v l
    by (simp add: accepts_binding_def example_env_def)
  from markAliases_binds [where env = example_env and options = example_options
        and chain = ?chain and ?w0.0 = create_start and lambdaData = example_data and w = ?w]
    created ok a b
  have first: "function_steps example_env example_options ?chain create_start =
                 markAliases example_env example_options example_data ?w"
    and "sent_since ?w (snd (markAliases example_env example_options example_data ?w)) =
           binding_requests (aliases ?w) ''fn'' ''$LATEST'' ''latest''
           @ binding_requests ((aliases ?w)((''fn'', ''latest'') \<mapsto> ''$LATEST'')) ''fn'' ''1'' ''dev''"
    and "aliases (snd (markAliases example_env example_options example_data ?w)) =
           (aliases ?w)((''fn'', ''latest'') \<mapsto> ''$LATEST'', (''fn'', ''dev'') \<mapsto> ''1'')"
    by simp_all
  then have pipeline:
    "sent_since ?w (snd (function_steps example_env example_options ?chain create_start)) =
       [Sent (LambdaCreateAlias ''fn'' ''$LATEST'' ''latest''),
        Sent (LambdaCreateAlias ''fn'' ''1'' ''dev'')]"
    "aliases (snd (function_steps example_env example_options ?chain create_start))
       (''fn'', ''latest'') = Some ''$LATEST''"
    "aliases (snd (function_steps example_env example_options ?chain create_start))
       (''fn'', ''dev'') = Some ''1''"
    by (simp_all add: table binding_requests_def)
  from markAliases_binds [where env = example_env and options = latest_requested
        and lambdaData = example_data and w = example_ready]
    ok a' b
  have "sent_since example_ready
           (snd (markAliases example_env latest_requested example_data example_ready)) =
           binding_requests (aliases example_ready) ''fn'' ''$LATEST'' ''latest''
           @ binding_requests ((aliases example_ready)((''fn'', ''latest'') \<mapsto> ''$LATEST''))
               ''fn'' ''1'' ''latest''"
    and "aliases (snd (markAliases example_env latest_requested example_data example_ready))
           (''fn'', ''latest'') = Some ''1''"
    by simp_all
  then have collision:
    "sent_since example_ready
       (snd (markAliases example_env latest_requested example_data example_ready)) =
       [Sent (LambdaCreateAlias ''fn'' ''$LATEST'' ''latest''),
        Sent (LambdaUpdateAlias ''fn'' ''$LATEST'' ''latest''),
        Sent (LambdaCreateAlias ''fn'' ''1'' ''latest''),
        Sent (LambdaUpdateAlias ''fn'' ''1'' ''latest'')]"
    "aliases (snd (markAliases example_env latest_requested example_data example_ready))
       (''fn'', ''latest'') = Some ''1''"
    by (simp_all add: c binding_requests_def)
  from created first pipeline collision a a' b c ok show ?thesis
    by simp
qed

lemma emits_resolve: "emits Q (resolve x)"
  by (simp add: emits_def resolve_def)

lemma emits_reject: "emits Q (reject e)"
  by (simp add: emits_def reject_def)

lemma emits_if: "(c \<Longrightarrow> emits Q a) \<Longrightarrow> (\<not> c \<Longrightarrow> emits Q b) \<Longrightarrow> emits Q (if c then a else b)"
  by simp

lemma emits_and_then:
  assumes "emits Q m" and "\<And>x. emits Q (f x)"
  shows "emits Q (and_then m f)"
  unfolding emits_def
proof
  fix w
  obtain r w1 where run: "m w = (r, w1)" by (cases "m w")
  from assms(1) have "\<exists>evs. trace (snd (m w)) = trace w @ evs \<and> list_all Q evs"
    unfolding emits_def by blast
  with run obtain evs where a: "trace w1 = trace w @ evs" "list_all Q evs"
    by auto
  show "\<exists>evs. trace (snd (and_then m f w)) = trace w @ evs \<and> list_all Q evs"
  proof (cases r)
    case (Inl e)
    with run a show ?thesis by (simp add: and_then_def)
  next
    case (Inr x)
    from assms(2) [of x] obtain evs' where "trace (snd (f x w1)) = trace w1 @ evs'" "list_all Q evs'"
      unfolding emits_def by blast
    with a have "trace (snd (f x w1)) = trace w @ (evs @ evs')" "list_all Q (evs @ evs')"
      by simp_all
    moreover from run Inr have "and_then m f w = f x w1"
      by (simp add: and_then_def)
    ultimately show ?thesis
      by auto
  qed
qed

lemma emits_or_catch:
  assumes "emits Q m" and "\<And>e. emits Q (h e)"
  shows "emits Q (or_catch m h)"
  unfolding emits_def
proof
  fix w
  obtain r w1 where run: "m w = (r, w1)" by (cases "m w")
  from assms(1) have "\<exists>evs. trace (snd (m w)) = trace w @ evs \<and> list_all Q evs"
    unfolding emits_def by blast
  with run obtain evs where a: "trace w1 = trace w @ evs" "list_all Q evs"
    by auto
  show "\<exists>evs. trace (snd (or_catch m h w)) = trace w @ evs \<and> list_all Q evs"
  proof (cases r)
    case (Inr x)
    with run a show ?thesis by (simp add: or_catch_def)
  next
    case (Inl e)
    from assms(2) [of e] obtain evs' where "trace (snd (h e w1)) = trace w1 @ evs'" "list_all Q evs'"
      unfolding emits_def by blast
    with a have "trace (snd (h e w1)) = trace w @ (evs @ evs')" "list_all Q (evs @ evs')"
      by simp_all
    moreover from run Inl have "or_catch m h w = h e w1"
      by (simp add: or_catch_def)
    ultimately show ?thesis
      by auto
  qed
qed

lemma emits_createAlias: "Q (Sent (LambdaCreateAlias n v l)) \<Longrightarrow> emits Q (createAlias env n v l)"
  by (simp add: emits_def createAlias_def Let_def split: option.splits)

lemma emits_updateAlias: "Q (Sent (LambdaUpdateAlias n v l)) \<Longrightarrow> emits Q (updateAlias env n v l)"
  by (simp add: emits_def updateAlias_def Let_def split: option.splits)

lemma emits_markAlias:
  "Q (Sent (LambdaCreateAlias n v l)) \<Longrightarrow> Q (Sent (LambdaUpdateAlias n v l))
     \<Longrightarrow> emits Q (markAlias env n v l)"
  unfolding markAlias_def
  by (intro emits_or_catch emits_if emits_reject emits_createAlias emits_updateAlias)

lemma emitsD: "emits Q m \<Longrightarrow> \<exists>evs. trace (snd (m w)) = trace w @ evs \<and> list_all Q evs"
  unfolding emits_def by (rule spec)

lemma alias_requests_Cons: "alias_requests (ev # evs) = alias_requests [ev] @ alias_requests evs"
  by (simp add: alias_requests_def)

lemma alias_requests_all:
  "list_all (\<lambda>ev. list_all B (alias_requests [ev])) evs \<Longrightarrow> list_all B (alias_requests evs)"
proof (induction evs)
  case Nil
  show ?case by (simp add: alias_requests_def)
next
  case (Cons ev evs)
  then have "list_all B (alias_requests [ev])" and "list_all B (alias_requests evs)"
    by simp_all
  then show ?case
    by (subst alias_requests_Cons) simp
qed

lemma markAliases_emits:
  "emits (\<lambda>ev. list_all (binding_of_run options lambdaData) (alias_requests [ev]))
     (markAliases env options lambdaData)"
  unfolding markAliases_def
  by (intro emits_and_then emits_if emits_resolve emits_markAlias)
     (simp_all add: alias_requests_def binding_of_run_def)

text \<open>
  C6, as the code has it. Every alias request markAliases sends is for the function of
  the createFunction response, and binds either \<open>latest\<close> to \<open>$LATEST\<close> or (only when
  a version label was requested) that label to the version of the response.
\<close>

theorem alias_bindings_of_a_run:
  "list_all (binding_of_run options lambdaData)
     (alias_requests (sent_since w (snd (markAliases env options lambdaData w))))"
proof -
  have "\<exists>evs. trace (snd (markAliases env options lambdaData w)) = trace w @ evs
          \<and> list_all (\<lambda>ev. list_all (binding_of_run options lambdaData) (alias_requests [ev])) evs"
    using markAliases_emits by (rule emitsD)
  then obtain evs where a: "trace (snd (markAliases env options lambdaData w)) = trace w @ evs"
    and b: "list_all (\<lambda>ev. list_all (binding_of_run options lambdaData) (alias_requests [ev])) evs"
    by (elim exE conjE)
  from a have "sent_since w (snd (markAliases env options lambdaData w)) = evs"
    by (simp add: sent_since_def)
  moreover from b have "list_all (binding_of_run options lambdaData) (alias_requests evs)"
    by (rule alias_requests_all)
  ultimately show ?thesis
    by simp
qed

theorem alias_bindings_of_a_run_witness:
  "alias_requests (sent_since example_ready
      (snd (markAliases example_env example_options example_data example_ready))) =
     [(''fn'', ''$LATEST'', ''latest''), (''fn'', ''$LATEST'', ''latest''), (''fn'', ''1'', ''dev'')]
   \<and> list_all (binding_of_run example_options example_data)
       [(''fn'', ''$LATEST'', ''latest''), (''fn'', ''$LATEST'', ''latest''), (''fn'', ''1'', ''dev'')]"
proof -
  have "alias_requests (sent_since example_ready
      (snd (markAliases example_env example_options example_data example_ready))) =
     [(''fn'', ''$LATEST'', ''latest''), (''fn'', ''$LATEST'', ''latest''), (''fn'', ''1'', ''dev'')]"
    by (simp add: markAliases_def markAlias_def createAlias_def updateAlias_def or_catch_def
        and_then_def resolve_def reject_def Let_def example_ready_def example_env_def
        example_options_def example_data_def truthy_def render_def sent_since_def
        alias_requests_def)
  with alias_bindings_of_a_run [of example_options example_data example_ready example_env]
  show ?thesis
    by simp
qed

text \<open>
  The claim as stated fails: the example deployment issues two bindings, \<open>latest\<close>
  against \<open>$LATEST\<close> and \<open>dev\<close> against version \<open>1\<close>.
\<close>

theorem alias_bindings_target_different_versions:
  "map (\<lambda>(n, v, l). (l, v))
     (alias_requests (trace (snd (create example_env example_options create_start)))) =
     [(''latest'', ''$LATEST''), (''dev'', ''1'')]
   \<and> ''$LATEST'' \<noteq> ''1''"
  by (simp add: example_run example_prefix_def alias_requests_def)

section \<open>Retrying createFunction\<close>

lemma createFunction_call_step:
  "createFunction_call env options name desc functionCode roleArn w =
     (passed_on (attempt_outcome env options w name desc functionCode roleArn 0),
      after_attempt options w name desc functionCode roleArn)"
  by (simp add: createFunction_call_def read_vars_def read_trace_def and_then_def promise_def
      perform_def resolve_def passed_on_def attempt_outcome_def after_attempt_def
      split: sum.splits)

lemma retry_loop_stop:
  assumes "\<not> retryable_outcome (attempt_outcome env options w name desc functionCode roleArn 0)"
  shows "retry_loop (createFunction_call env options name desc functionCode roleArn) d n
           isRetryable (resolve ()) w =
         (passed_on (attempt_outcome env options w name desc functionCode roleArn 0),
          after_attempt options w name desc functionCode roleArn)"
  using assms
  by (cases n; cases "attempt_outcome env options w name desc functionCode roleArn 0")
     (simp_all add: or_catch_def createFunction_call_step passed_on_def retryable_outcome_def
        isRetryable_def reject_def)

lemma retry_loop_exhaust:
  assumes "retryable_outcome (attempt_outcome env options w name desc functionCode roleArn 0)"
  shows "retry_loop (createFunction_call env options name desc functionCode roleArn) d 0
           isRetryable (resolve ()) w =
         (exhausted (attempt_outcome env options w name desc functionCode roleArn 0),
          after_attempt options w name desc functionCode roleArn)"
  using assms
  by (cases "attempt_outcome env options w name desc functionCode roleArn 0")
     (simp_all add: or_catch_def createFunction_call_step passed_on_def retryable_outcome_def
        isRetryable_def reject_def exhausted_def)

lemma retry_loop_again:
  assumes "retryable_outcome (attempt_outcome env options w name desc functionCode roleArn 0)"
  shows "retry_loop (createFunction_call env options name desc functionCode roleArn) d (Suc n)
           isRetryable (resolve ()) w =
         retry_loop (createFunction_call env options name desc functionCode roleArn) d n
           isRetryable (resolve ())
           ((after_attempt options w name desc functionCode roleArn)
              \<lparr>trace := trace (after_attempt options w name desc functionCode roleArn) @ [Sleep d]\<rparr>)"
  using assms
  by (cases "attempt_outcome env options w name desc functionCode roleArn 0")
     (simp_all add: or_catch_def and_then_def createFunction_call_step passed_on_def
        retryable_outcome_def isRetryable_def reject_def resolve_def perform_def)

lemma create_requests_after:
  "create_requests (trace (after_attempt options w name desc functionCode roleArn)) =
     create_requests (trace w) + 1"
  by (simp add: after_attempt_def create_requests_def is_create_function_def)

lemma attempt_outcome_later:
  "attempt_outcome env options
     ((after_attempt options w name desc functionCode roleArn)
        \<lparr>trace := trace (after_attempt options w name desc functionCode roleArn) @ [Sleep d]\<rparr>)
     name desc functionCode roleArn j =
   attempt_outcome env options w name desc functionCode roleArn (Suc j)"
  by (simp add: attempt_outcome_def after_attempt_def create_requests_def is_create_function_def)

lemma retry_loop_attempts:
  assumes "\<forall>j<i. retryable_outcome (attempt_outcome env options w name desc functionCode roleArn j)"
    and "i \<le> n"
  shows "(\<not> retryable_outcome (attempt_outcome env options w name desc functionCode roleArn i) \<longrightarrow>
            fst (retry_loop (createFunction_call env options name desc functionCode roleArn) d n
                   isRetryable (resolve ()) w) =
              passed_on (attempt_outcome env options w name desc functionCode roleArn i)
            \<and> create_requests (trace (snd
                 (retry_loop (createFunction_call env options name desc functionCode roleArn) d n
                    isRetryable (resolve ()) w))) = create_requests (trace w) + i + 1)
       \<and> (i = n \<and> retryable_outcome (attempt_outcome env options w name desc functionCode roleArn i) \<longrightarrow>
            fst (retry_loop (createFunction_call env options name desc functionCode roleArn) d n
                   isRetryable (resolve ()) w) =
              exhausted (attempt_outcome env options w name desc functionCode roleArn i)
            \<and> create_requests (trace (snd
                 (retry_loop (createFunction_call env options name desc functionCode roleArn) d n
                    isRetryable (resolve ()) w))) = create_requests (trace w) + i + 1)"
  using assms
proof (induction i arbitrary: w n)
  case 0
  show ?case
  proof (intro conjI impI)
    assume stop: "\<not> retryable_outcome (attempt_outcome env options w name desc functionCode roleArn 0)"
    show "fst (retry_loop (createFunction_call env options name desc functionCode roleArn) d n
                 isRetryable (resolve ()) w) =
            passed_on (attempt_outcome env options w name desc functionCode roleArn 0)"
      by (simp only: retry_loop_stop [OF stop] fst_conv)
    show "create_requests (trace (snd
            (retry_loop (createFunction_call env options name desc functionCode roleArn) d n
               isRetryable (resolve ()) w))) = create_requests (trace w) + 0 + 1"
      by (simp only: retry_loop_stop [OF stop] snd_conv create_requests_after add_0_right)
  next
    assume "0 = n \<and> retryable_outcome (attempt_outcome env options w name desc functionCode roleArn 0)"
    then have n: "n = 0"
      and again: "retryable_outcome (attempt_outcome env options w name desc functionCode roleArn 0)"
      by simp_all
    show "fst (retry_loop (createFunction_call env options name desc functionCode roleArn) d n
                 isRetryable (resolve ()) w) =
            exhausted (attempt_outcome env options w name desc functionCode roleArn 0)"
      by (simp only: n retry_loop_exhaust [OF again] fst_conv)
    show "create_requests (trace (snd
            (retry_loop (createFunction_call env options name desc functionCode roleArn) d n
               isRetryable (resolve ()) w))) = create_requests (trace w) + 0 + 1"
      by (simp only: n retry_loop_exhaust [OF again] snd_conv create_requests_after add_0_right)
  qed
next
  case (Suc i)
  from Suc.prems(2) obtain m where n: "n = Suc m" and m: "i \<le> m"
    by (cases n) simp_all
  let ?w = "(after_attempt options w name desc functionCode roleArn)
              \<lparr>trace := trace (after_attempt options w name desc functionCode roleArn) @ [Sleep d]\<rparr>"
  from Suc.prems(1) have first: "retryable_outcome (attempt_outcome env options w name desc functionCode roleArn 0)"
    by simp
  from Suc.prems(1) have later: "\<forall>j<i. retryable_outcome (attempt_outcome env options ?w name desc functionCode roleArn j)"
    by (simp add: attempt_outcome_later)
  have count: "create_requests (trace ?w) = create_requests (trace w) + 1"
    by (simp add: after_attempt_def create_requests_def is_create_function_def)
  have step: "retry_loop (createFunction_call env options name desc functionCode roleArn) d (Suc m)
                isRetryable (resolve ()) w =
              retry_loop (createFunction_call env options name desc functionCode roleArn) d m
                isRetryable (resolve ()) ?w"
    by (rule retry_loop_again [OF first])
  have index: "create_requests (trace ?w) + i + 1 = create_requests (trace w) + Suc i + 1"
    by (subst count) simp
  from Suc.IH [OF later m] show ?case
    by (simp only: step attempt_outcome_later index n nat.inject)
qed

text \<open>
  C2, as the code has it with the retry engine of the spec. Suppose every attempt
  before attempt \<open>i\<close> answered with an error of code InvalidParameterValueException.
  If attempt \<open>i\<close> is within the cap (\<open>i\<close> at most awsRetries - 1, counting from 0) and
  answers with a response or with an error of any other code, createLambda settles with
  that answer unchanged, after exactly \<open>i + 1\<close> requests: each earlier error was
  followed by a new attempt, and this one by none. If attempt \<open>i\<close> is the last the cap
  allows and answers with an error of that code again, createLambda is rejected after
  exactly \<open>i + 1\<close> requests: that error is followed by no new attempt.
\<close>

theorem createLambda_retries:
  "(\<forall>j<i. retryable_outcome (attempt_outcome env options w name desc functionCode roleArn j)) \<longrightarrow>
     (i \<le> nat (awsRetries options - 1)
        \<and> \<not> retryable_outcome (attempt_outcome env options w name desc functionCode roleArn i) \<longrightarrow>
          fst (createLambda env options name desc functionCode roleArn w) =
            passed_on (attempt_outcome env options w name desc functionCode roleArn i)
          \<and> create_requests (trace (snd (createLambda env options name desc functionCode roleArn w))) =
              create_requests (trace w) + i + 1)
     \<and> (i = nat (awsRetries options - 1)
        \<and> retryable_outcome (attempt_outcome env options w name desc functionCode roleArn i) \<longrightarrow>
          isl (fst (createLambda env options name desc functionCode roleArn w))
          \<and> create_requests (trace (snd (createLambda env options name desc functionCode roleArn w))) =
              create_requests (trace w) + i + 1)"
proof
  assume earlier: "\<forall>j<i. retryable_outcome (attempt_outcome env options w name desc functionCode roleArn j)"
  show "(i \<le> nat (awsRetries options - 1)
        \<and> \<not> retryable_outcome (attempt_outcome env options w name desc functionCode roleArn i) \<longrightarrow>
          fst (createLambda env options name desc functionCode roleArn w) =
            passed_on (attempt_outcome env options w name desc functionCode roleArn i)
          \<and> create_requests (trace (snd (createLambda env options name desc functionCode roleArn w))) =
              create_requests (trace w) + i + 1)
     \<and> (i = nat (awsRetries options - 1)
        \<and> retryable_outcome (attempt_outcome env options w name desc functionCode roleArn i) \<longrightarrow>
          isl (fst (createLambda env options name desc functionCode roleArn w))
          \<and> create_requests (trace (snd (createLambda env options name desc functionCode roleArn w))) =
              create_requests (trace w) + i + 1)"
  proof (cases "i \<le> nat (awsRetries options - 1)")
    case True
    have "isl (exhausted r)" if "retryable_outcome r" for r
      using that by (cases r) (simp_all add: exhausted_def retryable_outcome_def)
    with retry_loop_attempts [OF earlier True, of "awsDelay options (e_AWS_DELAY env)"]
    show ?thesis
      unfolding createLambda_def retry_def by metis
  next
    case False
    then show ?thesis by simp
  qed
qed

lemma example_retries: "awsRetries example_options = 5"
  by (simp add: awsRetries_def truthy_parse_def example_options_def)

lemma example_params_eq:
  "createFunction_params example_options (vars example_packaged) (Some ''fn'') None example_code
     ''arn:aws:iam::123:role/fn-role'' = example_params"
  by (simp add: createFunction_params_def example_options_def example_packaged_def
      example_vars_def example_code_def example_params_def truthy_def render_def)

lemma example_no_requests: "create_requests (trace example_packaged) = 0"
  by (simp add: example_packaged_def example_prefix_def create_requests_def
      is_create_function_def)

lemma example_outcomes:
  "attempt_outcome example_env example_options example_packaged (Some ''fn'') None example_code
     ''arn:aws:iam::123:role/fn-role'' j =
   (if j < 2 then Inl (AwsError ''InvalidParameterValueException'')
    else Inr \<lparr> FunctionName = ''fn'', FunctionArn = ''arn:aws:lambda:fn'', Version = ''1'' \<rparr>)"
  by (simp add: attempt_outcome_def example_params_eq example_no_requests)
     (simp add: example_env_def example_params_def render_def)

theorem createLambda_retries_witness:
  "retryable_outcome
     (attempt_outcome example_env example_options example_packaged (Some ''fn'') None
        example_code ''arn:aws:iam::123:role/fn-role'' 0)
   \<and> retryable_outcome
       (attempt_outcome example_env example_options example_packaged (Some ''fn'') None
          example_code ''arn:aws:iam::123:role/fn-role'' 1)
   \<and> 2 \<le> nat (awsRetries example_options - 1)
   \<and> \<not> retryable_outcome
       (attempt_outcome example_env example_options example_packaged (Some ''fn'') None
          example_code ''arn:aws:iam::123:role/fn-role'' 2)
   \<and> fst (createLambda example_env example_options (Some ''fn'') None example_code
            ''arn:aws:iam::123:role/fn-role'' example_packaged) =
       Inr \<lparr> lm_config = \<lparr> FunctionName = ''fn'', FunctionArn = ''arn:aws:lambda:fn'',
                             Version = ''1'' \<rparr>,
             lm_api = None \<rparr>
   \<and> create_requests (trace (snd
         (createLambda example_env example_options (Some ''fn'') None example_code
            ''arn:aws:iam::123:role/fn-role'' example_packaged))) = 3"
proof -
  have a: "\<forall>j<2. retryable_outcome
      (attempt_outcome example_env example_options example_packaged (Some ''fn'') None
         example_code ''arn:aws:iam::123:role/fn-role'' j)"
    by (simp add: example_outcomes retryable_outcome_def)
  have b: "(2::nat) \<le> nat (awsRetries example_options - 1)"
    by (simp add: example_retries)
  have c: "\<not> retryable_outcome
       (attempt_outcome example_env example_options example_packaged (Some ''fn'') None
          example_code ''arn:aws:iam::123:role/fn-role'' 2)"
    by (simp add: example_outcomes retryable_outcome_def)
  from createLambda_retries
         [of 2 example_env example_options example_packaged "Some ''fn''" None example_code
             "''arn:aws:iam::123:role/fn-role''"] a b c
  have "fst (createLambda example_env example_options (Some ''fn'') None example_code
            ''arn:aws:iam::123:role/fn-role'' example_packaged) =
          passed_on (attempt_outcome example_env example_options example_packaged (Some ''fn'') None
             example_code ''arn:aws:iam::123:role/fn-role'' 2)"
    and "create_requests (trace (snd
         (createLambda example_env example_options (Some ''fn'') None example_code
            ''arn:aws:iam::123:role/fn-role'' example_packaged))) =
          create_requests (trace example_packaged) + 2 + 1"
    by blast+
  with b c show ?thesis
    by (simp add: example_outcomes passed_on_def example_no_requests retryable_outcome_def)
qed

lemma unready_run:
  "create unready_env two_attempts create_start =
     (Inl (RetryExhausted (AwsError ''InvalidParameterValueException'')),
      \<lparr> trace = example_prefix @
          [Sent (LambdaCreateFunction example_params), Sleep 5000,
           Sent (LambdaCreateFunction example_params)],
        aliases = Map.empty,
        vars = example_vars \<rparr>)"
  by (simp add: run_defs unready_env_def two_attempts_def example_defs parseInt10_def
      parse_digits_def is_space_def is_digit_def digits_val_def digit_val_def eval_nat_numeral)

text \<open>
  The claim as stated fails: with two attempts allowed and a provider that never
  recognises the role, the second request fails with the code
  InvalidParameterValueException and is not followed by a third.
\<close>

theorem retryable_error_not_retried_at_cap:
  "e_createFunction unready_env 1 example_params = Inl (AwsError ''InvalidParameterValueException'')
   \<and> error_code (AwsError ''InvalidParameterValueException'') = Some ''InvalidParameterValueException''
   \<and> isl (fst (create unready_env two_attempts create_start))
   \<and> filter is_create_function (trace (snd (create unready_env two_attempts create_start))) =
       [Sent (LambdaCreateFunction example_params), Sent (LambdaCreateFunction example_params)]"
proof -
  have "e_createFunction unready_env 1 example_params =
          Inl (AwsError ''InvalidParameterValueException'')"
    by (simp add: unready_env_def)
  then show ?thesis
    by (simp add: unready_run example_prefix_def is_create_function_def)
qed

end
